theory Spec2Isabelle
  imports Complex_Main "HOL-Library.AList"
begin

section \<open>The Tornado transport of the RethinkDB Python driver\<close>

text \<open>
  A shallow embedding of \<^verbatim>\<open>drivers/python/rethinkdb/net_tornado.py\<close>: the deadline
  wrapper \<^verbatim>\<open>with_absolute_timeout\<close>, the cursor \<^verbatim>\<open>TornadoCursor\<close> and the
  connection instance \<^verbatim>\<open>ConnectionInstance\<close> with its handshake, its teardown and its
  reader loop.

  Python objects that are shared by reference (futures, cursors) live in explicit stores
  indexed by an object identity; the two dictionaries of the instance hold identities.
  A future is the list of the resolutions it has received, oldest first, so that a second
  resolution of the same future is visible in the model. The event loop is the queue of
  callbacks that \<^verbatim>\<open>add_future\<close> and \<^verbatim>\<open>add_timeout\<close> registered; its clock is an
  idealised real number.
\<close>

subsection \<open>Data model\<close>

type_synonym token = int
type_synonym time = real

text \<open>The response types the reader names; every other discriminant is \<open>OTHER_RESPONSE\<close>.\<close>

datatype response_type =
  SUCCESS_ATOM | SUCCESS_SEQUENCE | SUCCESS_PARTIAL | WAIT_COMPLETE | OTHER_RESPONSE nat

datatype query_type = START | CONTINUE | STOP | NOREPLY_WAIT

text \<open>\<^verbatim>\<open>Query(type, token, term, global_optargs)\<close>; the token may be Python's \<^verbatim>\<open>None\<close>.\<close>

record 'v query =
  qtype :: query_type
  qtoken :: "token option"
  qterm :: "'v option"
  global_optargs :: "'v option"

record 'v response =
  rtoken :: token
  rtype :: response_type
  data :: "'v list"
  profile :: "'v option"

datatype 'v exn =
    RqlDriverError string
  | RqlTimeoutError
  | GenTimeoutError
  | StopIteration
  | IndexError
  | StreamClosedError
  | TerminalError string
  | ServerError "'v list"
  | OtherError string

text \<open>The Python values a future of this module is completed with.\<close>

datatype 'v pyval =
    PyNone
  | PyTrue
  | Datum 'v
  | CursorRef nat
  | ParentConnection
  | Profiled "'v pyval" 'v

datatype 'v resolution = Result "'v pyval" | Exception "'v exn"

text \<open>
  The \<^verbatim>\<open>error\<close> attribute of a cursor: \<^verbatim>\<open>None\<close> while the cursor is open,
  \<^verbatim>\<open>False\<close> once it is exhausted without an error, an exception otherwise.
\<close>

datatype 'v cursor_error = ErrNone | ErrFalse | Failed "'v exn"

record 'v cursor =
  cquery :: "'v query"
  items :: "'v list"
  error :: "'v cursor_error"
  fetching :: bool
  new_response :: nat

text \<open>
  The two callbacks \<^verbatim>\<open>_try_next\<close> hands to the event loop are both calls of
  \<^verbatim>\<open>_try_next\<close> itself: \<open>TryNext cursor result_future deadline\<close>.
\<close>

datatype callback = TryNext nat nat "time option"

record 'v connection_instance =
  closing :: bool
  user_queries :: "(token option \<times> ('v query \<times> nat)) list"
  cursor_cache :: "(token \<times> nat) list"
  stream_closed :: bool
  written :: "'v query list"
  handshakes :: nat
  readers :: nat
  futures :: "nat \<Rightarrow> 'v resolution list"
  next_future :: nat
  cursors :: "nat \<Rightarrow> 'v cursor option"
  next_cursor :: nat
  future_callbacks :: "(nat \<times> callback) list"
  ready :: "callback list"
  timeouts :: "(time \<times> callback) list"
  clock :: time

text \<open>\<^verbatim>\<open>ConnectionInstance.__init__\<close>: both tables empty, not closing, stream open.\<close>

definition init :: "time \<Rightarrow> 'v connection_instance" where
  "init now = \<lparr>closing = False, user_queries = [], cursor_cache = [],
     stream_closed = False, written = [], handshakes = 0, readers = 0,
     futures = (\<lambda>_. []), next_future = 0,
     cursors = (\<lambda>_. None), next_cursor = 0,
     future_callbacks = [], ready = [], timeouts = [], clock = now\<rparr>"

subsection \<open>Futures and the event loop\<close>

text \<open>\<^verbatim>\<open>Future()\<close>: a new object, not yet resolved.\<close>

definition Future :: "'v connection_instance \<Rightarrow> nat \<times> 'v connection_instance" where
  "Future s = (next_future s,
     s\<lparr>futures := (futures s)(next_future s := []), next_future := Suc (next_future s)\<rparr>)"

definition running :: "nat \<Rightarrow> 'v connection_instance \<Rightarrow> bool" where
  "running f s = (futures s f = [])"

text \<open>
  Resolving a future records the resolution and hands the callbacks that \<^verbatim>\<open>add_future\<close>
  registered on it to the event loop; they run later, never inside the resolving call.
\<close>

definition resolve :: "nat \<Rightarrow> 'v resolution \<Rightarrow> 'v connection_instance \<Rightarrow> 'v connection_instance" where
  "resolve f r s = s\<lparr>futures := (futures s)(f := futures s f @ [r]),
     ready := ready s @ map snd (filter (\<lambda>p. fst p = f) (future_callbacks s)),
     future_callbacks := filter (\<lambda>p. fst p \<noteq> f) (future_callbacks s)\<rparr>"

definition set_result :: "nat \<Rightarrow> 'v pyval \<Rightarrow> 'v connection_instance \<Rightarrow> 'v connection_instance" where
  "set_result f v s = resolve f (Result v) s"

definition set_exception :: "nat \<Rightarrow> 'v exn \<Rightarrow> 'v connection_instance \<Rightarrow> 'v connection_instance" where
  "set_exception f e s = resolve f (Exception e) s"

text \<open>\<^verbatim>\<open>io_loop.add_future\<close>: on a future that is already done the callback is due at once.\<close>

definition add_future :: "nat \<Rightarrow> callback \<Rightarrow> 'v connection_instance \<Rightarrow> 'v connection_instance" where
  "add_future f cb s =
     (if running f s then s\<lparr>future_callbacks := future_callbacks s @ [(f, cb)]\<rparr>
      else s\<lparr>ready := ready s @ [cb]\<rparr>)"

definition add_timeout :: "time \<Rightarrow> callback \<Rightarrow> 'v connection_instance \<Rightarrow> 'v connection_instance" where
  "add_timeout deadline cb s = s\<lparr>timeouts := timeouts s @ [(deadline, cb)]\<rparr>"

subsection \<open>The deadline wrapper\<close>

text \<open>
  An awaited operation either completes at some time with a value or an exception, or
  never completes: \<open>None\<close>. The result of awaiting is \<open>None\<close> when the caller is never
  resumed.

  \<^verbatim>\<open>gen.with_timeout\<close> is Tornado's: it raises its own \<^verbatim>\<open>TimeoutError\<close> if the
  operation has not completed before the deadline, and hands on the operation's outcome
  otherwise.
\<close>

type_synonym ('v, 'a) operation = "(time \<times> ('v exn + 'a)) option"

definition await :: "('v, 'a) operation \<Rightarrow> ('v exn + 'a) option" where
  "await generator = map_option snd generator"

definition with_timeout :: "time \<Rightarrow> ('v, 'a) operation \<Rightarrow> ('v exn + 'a) option" where
  "with_timeout deadline generator =
     (case generator of
        None \<Rightarrow> Some (Inl GenTimeoutError)
      | Some (finished, outcome) \<Rightarrow>
          if finished < deadline then Some outcome else Some (Inl GenTimeoutError))"

definition with_absolute_timeout ::
  "time option \<Rightarrow> ('v, 'a) operation \<Rightarrow> ('v exn + 'a) option" where
  "with_absolute_timeout deadline generator =
     (case deadline of
        None \<Rightarrow> await generator
      | Some d \<Rightarrow>
          (case with_timeout d generator of
             Some (Inl GenTimeoutError) \<Rightarrow> Some (Inl RqlTimeoutError)
           | res \<Rightarrow> res))"

subsection \<open>The cursor\<close>

text \<open>
  Modelled from the spec: the base class \<^verbatim>\<open>Cursor\<close> of \<^verbatim>\<open>net.py\<close> is not part of
  the sources at hand. Its constructor yields an open cursor with an empty buffer. Its
  \<^verbatim>\<open>_extend\<close> "appends decoded rows from response.data to the internal buffer; if
  response.type == SUCCESS_SEQUENCE marks the cursor exhausted after this batch; if
  SUCCESS_PARTIAL, leaves it open for continuation"; the batch that arrived is no longer
  in flight. Its \<^verbatim>\<open>_maybe_fetch_batch\<close> sends a CONTINUE query with the cursor's token
  "if the buffer is running low and the cursor is not exhausted and no continuation is
  already in flight"; what counts as low is the parameter \<open>low\<close>. Its \<^verbatim>\<open>_error\<close> "sets a
  terminal error" carrying the message and "wakes any waiter".
\<close>

definition Cursor_init :: "'v query \<Rightarrow> nat \<Rightarrow> 'v cursor" where
  "Cursor_init query f =
     \<lparr>cquery = query, items = [], error = ErrNone, fetching = False, new_response = f\<rparr>"

definition Cursor_extend :: "'v response \<Rightarrow> 'v cursor \<Rightarrow> 'v cursor" where
  "Cursor_extend res c =
     c\<lparr>items := items c @ data res,
       error := (if rtype res = SUCCESS_SEQUENCE then ErrFalse else error c),
       fetching := False\<rparr>"

definition maybe_fetch_batch ::
  "(nat \<Rightarrow> bool) \<Rightarrow> nat \<Rightarrow> 'v connection_instance \<Rightarrow> 'v connection_instance" where
  "maybe_fetch_batch low cid s =
     (case cursors s cid of
        None \<Rightarrow> s
      | Some c \<Rightarrow>
          if low (length (items c)) \<and> error c \<noteq> ErrFalse \<and> \<not> fetching c
          then s\<lparr>written := written s @
                    [\<lparr>qtype = CONTINUE, qtoken = qtoken (cquery c), qterm = None,
                       global_optargs = None\<rparr>],
                  cursors := (cursors s)(cid \<mapsto> c\<lparr>fetching := True\<rparr>)\<rparr>
          else s)"

text \<open>
  The signal of \<^verbatim>\<open>TornadoCursor._extend\<close>: the pending \<^verbatim>\<open>new_response\<close> future is
  completed with \<^verbatim>\<open>True\<close> and replaced by a new one.
\<close>

definition signal :: "nat \<Rightarrow> 'v connection_instance \<Rightarrow> 'v connection_instance" where
  "signal cid s =
     (case cursors s cid of
        None \<Rightarrow> s
      | Some c \<Rightarrow>
          (case Future (set_result (new_response c) PyTrue s) of
             (f, s') \<Rightarrow> s'\<lparr>cursors := (cursors s')(cid \<mapsto> c\<lparr>new_response := f\<rparr>)\<rparr>))"

text \<open>\<^verbatim>\<open>TornadoCursor._extend\<close>. A cursor identity that names no object leaves the state alone.\<close>

definition extend :: "nat \<Rightarrow> 'v response \<Rightarrow> 'v connection_instance \<Rightarrow> 'v connection_instance" where
  "extend cid res s =
     (case cursors s cid of
        None \<Rightarrow> s
      | Some c \<Rightarrow> signal cid (s\<lparr>cursors := (cursors s)(cid \<mapsto> Cursor_extend res c)\<rparr>))"

definition Cursor_error :: "string \<Rightarrow> nat \<Rightarrow> 'v connection_instance \<Rightarrow> 'v connection_instance" where
  "Cursor_error message cid s =
     (case cursors s cid of
        None \<Rightarrow> s
      | Some c \<Rightarrow>
          signal cid (s\<lparr>cursors := (cursors s)(cid \<mapsto> c\<lparr>error := Failed (TerminalError message)\<rparr>)\<rparr>))"

text \<open>\<^verbatim>\<open>TornadoCursor(conn, query)\<close>: the base constructor, then a new \<^verbatim>\<open>new_response\<close>.\<close>

definition TornadoCursor :: "'v query \<Rightarrow> 'v connection_instance \<Rightarrow> nat \<times> 'v connection_instance" where
  "TornadoCursor query s =
     (case Future s of
        (f, s') \<Rightarrow>
          (next_cursor s',
           s'\<lparr>cursors := (cursors s')(next_cursor s' \<mapsto> Cursor_init query f),
              next_cursor := Suc (next_cursor s')\<rparr>))"

text \<open>
  \<^verbatim>\<open>TornadoCursor._try_next\<close>. \<open>convert_pseudo\<close> is the collaborator of the same name.
\<close>

definition try_next ::
  "('v \<Rightarrow> 'v query \<Rightarrow> 'v) \<Rightarrow> nat \<Rightarrow> nat \<Rightarrow> time option \<Rightarrow>
   'v connection_instance \<Rightarrow> 'v connection_instance" where
  "try_next convert_pseudo cid result_future deadline s =
     (case cursors s cid of
        None \<Rightarrow> s
      | Some c \<Rightarrow>
          if running result_future s then
            (case items c of
               [] \<Rightarrow>
                 (case error c of
                    ErrFalse \<Rightarrow> set_exception result_future StopIteration s
                  | Failed e \<Rightarrow> set_exception result_future e s
                  | ErrNone \<Rightarrow>
                      if (case deadline of None \<Rightarrow> False | Some d \<Rightarrow> d < clock s)
                      then set_exception result_future RqlTimeoutError s
                      else
                        (case deadline of
                           None \<Rightarrow> add_future (new_response c) (TryNext cid result_future None) s
                         | Some d \<Rightarrow>
                             add_timeout d (TryNext cid result_future deadline)
                               (add_future (new_response c) (TryNext cid result_future None) s)))
             | x # rest \<Rightarrow>
                 set_result result_future (Datum (convert_pseudo x (cquery c)))
                   (s\<lparr>cursors := (cursors s)(cid \<mapsto> c\<lparr>items := rest\<rparr>)\<rparr>))
          else s)"

text \<open>\<^verbatim>\<open>TornadoCursor._get_next\<close>: returns the result future.\<close>

definition get_next ::
  "('v \<Rightarrow> 'v query \<Rightarrow> 'v) \<Rightarrow> (nat \<Rightarrow> bool) \<Rightarrow> nat \<Rightarrow> time option \<Rightarrow>
   'v connection_instance \<Rightarrow> nat \<times> 'v connection_instance" where
  "get_next convert_pseudo low cid timeout s =
     (case Future s of
        (result_future, s1) \<Rightarrow>
          (let deadline = (case timeout of None \<Rightarrow> None | Some t \<Rightarrow> Some (clock s1 + t))
           in (result_future,
               try_next convert_pseudo cid result_future deadline
                 (maybe_fetch_batch low cid s1))))"

text \<open>The event loop runs a due callback, and makes the timeouts due whose deadline has come.\<close>

fun run_callback ::
  "('v \<Rightarrow> 'v query \<Rightarrow> 'v) \<Rightarrow> callback \<Rightarrow> 'v connection_instance \<Rightarrow> 'v connection_instance" where
  "run_callback convert_pseudo (TryNext cid result_future deadline) s =
     try_next convert_pseudo cid result_future deadline s"

definition run_ready ::
  "('v \<Rightarrow> 'v query \<Rightarrow> 'v) \<Rightarrow> 'v connection_instance \<Rightarrow> 'v connection_instance" where
  "run_ready convert_pseudo s =
     (case ready s of
        [] \<Rightarrow> s
      | cb # cbs \<Rightarrow> run_callback convert_pseudo cb (s\<lparr>ready := cbs\<rparr>))"

definition advance :: "time \<Rightarrow> 'v connection_instance \<Rightarrow> 'v connection_instance" where
  "advance t s =
     (let now = max (clock s) t
      in s\<lparr>clock := now,
           ready := ready s @ map snd (filter (\<lambda>p. fst p \<le> now) (timeouts s)),
           timeouts := filter (\<lambda>p. \<not> fst p \<le> now) (timeouts s)\<rparr>)"

subsection \<open>The connection instance\<close>

text \<open>
  \<^verbatim>\<open>run_query\<close>: writing to a closed stream raises \<^verbatim>\<open>StreamClosedError\<close> (Tornado's
  \<^verbatim>\<open>IOStream.write\<close>). With \<open>noreply\<close> the call returns at once; otherwise it registers
  the pending request and waits on the returned future.
\<close>

definition run_query ::
  "'v query \<Rightarrow> bool \<Rightarrow> 'v connection_instance \<Rightarrow> 'v exn + (nat option \<times> 'v connection_instance)" where
  "run_query query noreply s =
     (if stream_closed s then Inl StreamClosedError
      else
        (let s1 = s\<lparr>written := written s @ [query]\<rparr>
         in if noreply then Inr (None, s1)
            else
              (case Future s1 of
                 (response_future, s2) \<Rightarrow>
                   Inr (Some response_future,
                        s2\<lparr>user_queries :=
                             AList.update (qtoken query) (query, response_future)
                               (user_queries s2)\<rparr>))))"

text \<open>
  \<^verbatim>\<open>str(ex)\<close> for the value \<^verbatim>\<open>sys.exc_info()\<close> yields: the exception being handled,
  or \<^verbatim>\<open>None\<close>. The rendering of an exception is the parameter \<open>str_exn\<close>.
\<close>

definition py_str :: "('v exn \<Rightarrow> string) \<Rightarrow> 'v exn option \<Rightarrow> string" where
  "py_str str_exn ex = (case ex of None \<Rightarrow> ''None'' | Some e \<Rightarrow> str_exn e)"

definition err_message :: "('v exn \<Rightarrow> string) \<Rightarrow> bool \<Rightarrow> 'v exn option \<Rightarrow> string" where
  "err_message str_exn exc_info ex =
     (if exc_info then ''Connection is closed (%s).'' @ py_str str_exn ex
      else ''Connection is closed.'')"

text \<open>The two loops of \<^verbatim>\<open>close\<close> over the values of the tables, and the clearing.\<close>

definition notify_cursors :: "string \<Rightarrow> 'v connection_instance \<Rightarrow> 'v connection_instance" where
  "notify_cursors message s = fold (\<lambda>entry. Cursor_error message (snd entry)) (cursor_cache s) s"

definition notify_queries :: "string \<Rightarrow> 'v connection_instance \<Rightarrow> 'v connection_instance" where
  "notify_queries message s =
     fold (\<lambda>entry. set_exception (snd (snd entry)) (RqlDriverError message)) (user_queries s) s"

definition clear_tables :: "'v connection_instance \<Rightarrow> 'v connection_instance" where
  "clear_tables s = s\<lparr>user_queries := [], cursor_cache := []\<rparr>"

definition stream_close :: "'v connection_instance \<Rightarrow> 'v connection_instance" where
  "stream_close s = s\<lparr>stream_closed := True\<rparr>"

text \<open>
  The first part of \<^verbatim>\<open>close\<close>, up to the clearing of the tables. \<open>handled\<close> is the
  exception being handled by the caller, which \<^verbatim>\<open>sys.exc_info()\<close> yields.
\<close>

definition teardown ::
  "('v exn \<Rightarrow> string) \<Rightarrow> bool \<Rightarrow> 'v exn option \<Rightarrow> 'v connection_instance \<Rightarrow> 'v connection_instance" where
  "teardown str_exn exc_info handled s =
     (let message = err_message str_exn exc_info handled
      in clear_tables (notify_queries message (notify_cursors message (s\<lparr>closing := True\<rparr>))))"

text \<open>\<^verbatim>\<open>Query(pQuery.NOREPLY_WAIT, token, None, None)\<close>, which \<^verbatim>\<open>close\<close> builds.\<close>

definition noreply_query :: "token option \<Rightarrow> 'v query" where
  "noreply_query token = \<lparr>qtype = NOREPLY_WAIT, qtoken = token, qterm = None, global_optargs = None\<rparr>"

text \<open>
  \<^verbatim>\<open>close\<close> is a coroutine: it returns, raises, or is suspended on the future of its
  NOREPLY_WAIT request.
\<close>

datatype 'v progress = Returned | Raised "'v exn" | Awaiting nat

definition close ::
  "('v exn \<Rightarrow> string) \<Rightarrow> bool \<Rightarrow> token option \<Rightarrow> bool \<Rightarrow> 'v exn option \<Rightarrow>
   'v connection_instance \<Rightarrow> 'v progress \<times> 'v connection_instance" where
  "close str_exn noreply_wait token exc_info handled s =
     (let s1 = teardown str_exn exc_info handled s
      in if noreply_wait then
           (case run_query (noreply_query token) False s1 of
              Inl e \<Rightarrow> (Raised e, s1)
            | Inr (None, s2) \<Rightarrow> (Returned, stream_close s2)
            | Inr (Some f, s2) \<Rightarrow> (Awaiting f, s2))
         else (Returned, stream_close s1))"


text \<open>
  One pass of the body of the \<^verbatim>\<open>while True\<close> of \<^verbatim>\<open>_reader\<close> on a decoded frame: the
  exception it raises, if any, and the state it leaves. \<open>convert_pseudo\<close> and
  \<open>make_error\<close> are the collaborators of those names.

  Modelled from the spec: \<^verbatim>\<open>maybe_profile\<close> of \<^verbatim>\<open>net.py\<close> is not part of the sources
  at hand; the value gets the "profiling metadata attached if present".
\<close>

definition maybe_profile :: "'v pyval \<Rightarrow> 'v response \<Rightarrow> 'v pyval" where
  "maybe_profile v res = (case profile res of None \<Rightarrow> v | Some p \<Rightarrow> Profiled v p)"

definition reader_body ::
  "('v \<Rightarrow> 'v query \<Rightarrow> 'v) \<Rightarrow> ('v response \<Rightarrow> 'v query \<Rightarrow> 'v exn) \<Rightarrow> 'v response \<Rightarrow>
   'v connection_instance \<Rightarrow> 'v exn option \<times> 'v connection_instance" where
  "reader_body convert_pseudo make_error res s =
     (let token = rtoken res
      in case map_of (cursor_cache s) token of
           Some cursor \<Rightarrow> (None, extend cursor res s)
         | None \<Rightarrow>
             (case map_of (user_queries s) (Some token) of
                Some (query, future) \<Rightarrow>
                  (if rtype res = SUCCESS_ATOM then
                     (case data res of
                        [] \<Rightarrow> (Some IndexError, s)
                      | d # _ \<Rightarrow>
                          (None,
                           (set_result future (maybe_profile (Datum (convert_pseudo d query)) res) s)
                             \<lparr>user_queries := AList.delete (Some token) (user_queries s)\<rparr>))
                   else if rtype res \<in> {SUCCESS_SEQUENCE, SUCCESS_PARTIAL} then
                     (case TornadoCursor query s of
                        (cursor, s1) \<Rightarrow>
                          (let s2 = s1\<lparr>cursor_cache := AList.update token cursor (cursor_cache s1)\<rparr>;
                               s3 = extend cursor res s2;
                               s4 = set_result future (maybe_profile (CursorRef cursor) res) s3
                           in (None, s4\<lparr>user_queries := AList.delete (Some token) (user_queries s4)\<rparr>)))
                   else if rtype res = WAIT_COMPLETE then
                     (None,
                      (set_result future PyNone s)
                        \<lparr>user_queries := AList.delete (Some token) (user_queries s)\<rparr>)
                   else
                     (None,
                      (set_exception future (make_error res query) s)
                        \<lparr>user_queries := AList.delete (Some token) (user_queries s)\<rparr>))
              | None \<Rightarrow>
                  if \<not> closing s
                  then (Some (RqlDriverError ''Unexpected response received.''), s)
                  else (None, s)))"

text \<open>
  What the reader gets from the stream: a decoded frame, or a failure of reading or
  decoding. The \<^verbatim>\<open>except\<close> clause of \<^verbatim>\<open>_reader\<close> ends the loop.
\<close>

datatype 'v stream_event = Frame "'v response" | ReadFailure "'v exn"

definition reader_except ::
  "('v exn \<Rightarrow> string) \<Rightarrow> 'v exn \<Rightarrow> 'v connection_instance \<Rightarrow> 'v connection_instance" where
  "reader_except str_exn e s =
     (if \<not> closing s then snd (close str_exn False None True (Some e) s) else s)"

text \<open>One pass of the loop with its handler: whether the loop goes on, and the state.\<close>

definition reader_step ::
  "('v \<Rightarrow> 'v query \<Rightarrow> 'v) \<Rightarrow> ('v response \<Rightarrow> 'v query \<Rightarrow> 'v exn) \<Rightarrow> ('v exn \<Rightarrow> string) \<Rightarrow>
   'v stream_event \<Rightarrow> 'v connection_instance \<Rightarrow> bool \<times> 'v connection_instance" where
  "reader_step convert_pseudo make_error str_exn ev s =
     (case ev of
        ReadFailure e \<Rightarrow> (False, reader_except str_exn e s)
      | Frame res \<Rightarrow>
          (case reader_body convert_pseudo make_error res s of
             (None, s') \<Rightarrow> (True, s')
           | (Some e, s') \<Rightarrow> (False, reader_except str_exn e s')))"

fun reader ::
  "('v \<Rightarrow> 'v query \<Rightarrow> 'v) \<Rightarrow> ('v response \<Rightarrow> 'v query \<Rightarrow> 'v exn) \<Rightarrow> ('v exn \<Rightarrow> string) \<Rightarrow>
   'v stream_event list \<Rightarrow> 'v connection_instance \<Rightarrow> 'v connection_instance" where
  "reader convert_pseudo make_error str_exn [] s = s"
| "reader convert_pseudo make_error str_exn (ev # evs) s =
     (case reader_step convert_pseudo make_error str_exn ev s of
        (True, s') \<Rightarrow> reader convert_pseudo make_error str_exn evs s'
      | (False, s') \<Rightarrow> s')"

subsection \<open>The handshake\<close>

text \<open>\<^verbatim>\<open>str.split(sep)\<close> for a separator of one character; the result is never empty.\<close>

fun split :: "'a \<Rightarrow> 'a list \<Rightarrow> 'a list list" where
  "split sep [] = [[]]"
| "split sep (c # cs) =
     (if c = sep then [] # split sep cs
      else (case split sep cs of [] \<Rightarrow> [[c]] | w # ws \<Rightarrow> (c # w) # ws))"

text \<open>\<^verbatim>\<open>'%s' % port\<close> for a port number.\<close>

fun str_nat :: "nat \<Rightarrow> string" where
  "str_nat n =
     (if n < 10 then [char_of (48 + n)]
      else str_nat (n div 10) @ [char_of (48 + n mod 10)])"

declare str_nat.simps [simp del]

text \<open>
  The deadline of \<^verbatim>\<open>connect\<close>:
  \<^verbatim>\<open>None if timeout is None else self._io_loop.time() + timeout\<close>.
\<close>

definition connect_deadline :: "time option \<Rightarrow> 'v connection_instance \<Rightarrow> time option" where
  "connect_deadline timeout s = (case timeout of None \<Rightarrow> None | Some t \<Rightarrow> Some (clock s + t))"

text \<open>
  \<^verbatim>\<open>connect\<close>. The two awaited stream operations are given by their outcomes;
  \<open>decodeUTF\<close> is the collaborator of that name. The result is \<open>None\<close> when the coroutine
  is never resumed.
\<close>

definition handshake_message :: "(string \<Rightarrow> string) \<Rightarrow> string \<Rightarrow> 'v exn + string" where
  "handshake_message decodeUTF response =
     (case split (CHR 0x0A) (decodeUTF (butlast response)) of
        [] \<Rightarrow> Inl IndexError
      | m # _ \<Rightarrow> Inr m)"

definition connect ::
  "(string \<Rightarrow> string) \<Rightarrow> ('v exn \<Rightarrow> string) \<Rightarrow> string \<Rightarrow> nat \<Rightarrow> time option \<Rightarrow>
   ('v, unit) operation \<Rightarrow> ('v, string) operation \<Rightarrow> 'v connection_instance \<Rightarrow>
   ('v exn + 'v pyval) option \<times> 'v connection_instance" where
  "connect decodeUTF str_exn host port timeout stream_connect read_until s =
     (let deadline = connect_deadline timeout s
      in case with_absolute_timeout deadline stream_connect of
           None \<Rightarrow> (None, s)
         | Some (Inl err) \<Rightarrow>
             (Some (Inl (RqlDriverError (''Could not connect to '' @ host @ '':'' @ str_nat port
                                          @ ''. Error: '' @ str_exn err))), s)
         | Some (Inr _) \<Rightarrow>
             (let interrupted = (\<lambda>err. RqlDriverError
                    (''Connection interrupted during handshake with '' @ host @ '':''
                     @ str_nat port @ ''. Error: '' @ str_exn err))
              in if stream_closed s then (Some (Inl (interrupted StreamClosedError)), s)
                 else
                   (let s1 = s\<lparr>handshakes := Suc (handshakes s)\<rparr>
                    in case with_absolute_timeout deadline read_until of
                         None \<Rightarrow> (None, s1)
                       | Some (Inl err) \<Rightarrow> (Some (Inl (interrupted err)), s1)
                       | Some (Inr response) \<Rightarrow>
                           (case handshake_message decodeUTF response of
                              Inl e \<Rightarrow> (Some (Inl e), s1)
                            | Inr message \<Rightarrow>
                                if message \<noteq> ''SUCCESS'' then
                                  (Some (Inl (RqlDriverError
                                     (''Server dropped connection with message: '' @ [CHR 0x22]
                                      @ message @ [CHR 0x22]))),
                                   snd (close str_exn False None False None s1))
                                else
                                  (Some (Inr ParentConnection),
                                   s1\<lparr>readers := Suc (readers s1)\<rparr>)))))"

text \<open>
  The handshake reply in the words of the spec: "the text before the first line
  terminator".
\<close>

definition first_line :: "string \<Rightarrow> string" where
  "first_line text = takeWhile (\<lambda>c. c \<noteq> CHR 0x0A) text"

subsection \<open>Well-formed states\<close>

text \<open>
  What the stores and the tables of a state built by the operations above satisfy: the
  tables are dictionaries (no key twice); pending requests have distinct futures, all
  allocated and unresolved; the cursors of the cursor table are distinct allocated objects,
  and the \<^verbatim>\<open>new_response\<close> future of each is allocated and is no pending request's future.
\<close>

definition pending_futures :: "'v connection_instance \<Rightarrow> nat list" where
  "pending_futures s = map (\<lambda>entry. snd (snd entry)) (user_queries s)"

definition wf :: "'v connection_instance \<Rightarrow> bool" where
  "wf s \<longleftrightarrow>
     distinct (map fst (user_queries s)) \<and>
     distinct (pending_futures s) \<and>
     (\<forall>f \<in> set (pending_futures s). futures s f = [] \<and> f < next_future s) \<and>
     distinct (map fst (cursor_cache s)) \<and>
     distinct (map snd (cursor_cache s)) \<and>
     (\<forall>cid \<in> set (map snd (cursor_cache s)).
        cid < next_cursor s \<and>
        (case cursors s cid of
           None \<Rightarrow> False
         | Some c \<Rightarrow> new_response c < next_future s \<and> new_response c \<notin> set (pending_futures s)))"

subsection \<open>Sample states and inputs\<close>

text \<open>
  Two pending requests, under the tokens 1 and 2, and one live cursor, under the token 3,
  holding one row; the stream is open.
\<close>

definition start_query :: "token \<Rightarrow> nat query" where
  "start_query t = \<lparr>qtype = START, qtoken = Some t, qterm = Some 0, global_optargs = None\<rparr>"

definition sample :: "nat connection_instance" where
  "sample = \<lparr>closing = False,
     user_queries = [(Some 1, (start_query 1, 0)), (Some 2, (start_query 2, 1))],
     cursor_cache = [(3, 0)],
     stream_closed = False, written = [start_query 1, start_query 2, start_query 3],
     handshakes = 1, readers = 1,
     futures = (\<lambda>_. []), next_future = 3,
     cursors = (\<lambda>_. None)(0 \<mapsto> \<lparr>cquery = start_query 3, items = [7], error = ErrNone,
                                  fetching = False, new_response = 2\<rparr>),
     next_cursor = 1,
     future_callbacks = [], ready = [], timeouts = [], clock = 0\<rparr>"

definition sample_str :: "nat exn \<Rightarrow> string" where
  "sample_str e = (case e of RqlDriverError m \<Rightarrow> m | IndexError \<Rightarrow> ''list index out of range''
                   | _ \<Rightarrow> '''')"

text \<open>A frame without profiling data, and collaborators to run the reader with.\<close>

definition frame :: "token \<Rightarrow> response_type \<Rightarrow> nat list \<Rightarrow> nat response" where
  "frame t ty rows = \<lparr>rtoken = t, rtype = ty, data = rows, profile = None\<rparr>"

definition sample_convert :: "nat \<Rightarrow> nat query \<Rightarrow> nat" where
  "sample_convert v q = v"

definition sample_error :: "nat response \<Rightarrow> nat query \<Rightarrow> nat exn" where
  "sample_error res q = ServerError (data res)"

text \<open>Sample handshake replies, as read up to the NUL, and a decoder for ASCII.\<close>

definition bad_reply :: string where
  "bad_reply = ''ERROR: bad proto'' @ [CHR 0x0A, CHR 0x00]"

definition good_reply :: string where
  "good_reply = ''SUCCESS'' @ [CHR 0x00]"

definition ascii :: "string \<Rightarrow> string" where
  "ascii bytes = bytes"

text \<open>A new instance on which one request was submitted before the handshake reply came.\<close>

definition early_request :: "nat connection_instance" where
  "early_request =
     (case run_query (start_query 1) False (init 0) of Inl e \<Rightarrow> init 0 | Inr (f, s) \<Rightarrow> s)"

subsection \<open>What happens to a cursor, as a sequence of events\<close>

text \<open>
  New data routed to a cursor, a terminal error set on it, the event loop running the
  callback at the head of its queue, the clock moving on, and a call of
  \<^verbatim>\<open>_get_next\<close>.
\<close>

datatype 'v cursor_event =
    NewData nat "'v response"
  | Errored string nat
  | RunReady
  | Tick time
  | Call nat "time option"

fun cursor_step ::
  "('v \<Rightarrow> 'v query \<Rightarrow> 'v) \<Rightarrow> (nat \<Rightarrow> bool) \<Rightarrow> 'v cursor_event \<Rightarrow>
   'v connection_instance \<Rightarrow> 'v connection_instance" where
  "cursor_step convert_pseudo low (NewData cid res) s = extend cid res s"
| "cursor_step convert_pseudo low (Errored message cid) s = Cursor_error message cid s"
| "cursor_step convert_pseudo low RunReady s = run_ready convert_pseudo s"
| "cursor_step convert_pseudo low (Tick t) s = advance t s"
| "cursor_step convert_pseudo low (Call cid timeout) s =
     snd (get_next convert_pseudo low cid timeout s)"

definition run_events ::
  "('v \<Rightarrow> 'v query \<Rightarrow> 'v) \<Rightarrow> (nat \<Rightarrow> bool) \<Rightarrow> 'v cursor_event list \<Rightarrow>
   'v connection_instance \<Rightarrow> 'v connection_instance" where
  "run_events convert_pseudo low evs s = fold (cursor_step convert_pseudo low) evs s"

text \<open>
  A result future that is allocated, has at most one resolution, and is no cursor's
  \<^verbatim>\<open>new_response\<close>.
\<close>

definition once :: "nat \<Rightarrow> 'v connection_instance \<Rightarrow> bool" where
  "once rf s \<longleftrightarrow>
     length (futures s rf) \<le> 1 \<and> rf < next_future s \<and>
     (\<forall>cid c. cursors s cid = Some c \<longrightarrow> new_response c \<noteq> rf)"

text \<open>A state whose one cursor, under the token 3, has an empty buffer and the given flag.\<close>

definition idle_cursor :: "nat cursor_error \<Rightarrow> nat cursor" where
  "idle_cursor flag =
     \<lparr>cquery = start_query 3, items = [], error = flag, fetching = True, new_response = 0\<rparr>"

definition idle :: "nat cursor_error \<Rightarrow> nat connection_instance" where
  "idle flag = \<lparr>closing = False, user_queries = [], cursor_cache = [(3, 0)],
     stream_closed = False, written = [start_query 3], handshakes = 1, readers = 1,
     futures = (\<lambda>_. []), next_future = 1,
     cursors = (\<lambda>_. None)(0 \<mapsto> idle_cursor flag),
     next_cursor = 1,
     future_callbacks = [], ready = [], timeouts = [], clock = 100\<rparr>"

definition never_low :: "nat \<Rightarrow> bool" where
  "never_low n = False"

section \<open>Verified properties\<close>

lemma resolve_simps [simp]:
  "futures (resolve f r s) = (futures s)(f := futures s f @ [r])"
  "cursors (resolve f r s) = cursors s"
  "user_queries (resolve f r s) = user_queries s"
  "cursor_cache (resolve f r s) = cursor_cache s"
  "closing (resolve f r s) = closing s"
  "stream_closed (resolve f r s) = stream_closed s"
  "written (resolve f r s) = written s"
  "readers (resolve f r s) = readers s"
  "handshakes (resolve f r s) = handshakes s"
  "next_future (resolve f r s) = next_future s"
  "next_cursor (resolve f r s) = next_cursor s"
  "clock (resolve f r s) = clock s"
  "timeouts (resolve f r s) = timeouts s"
  by (simp_all add: resolve_def)

lemma signal_frame [simp]:
  "user_queries (signal cid s) = user_queries s"
  "cursor_cache (signal cid s) = cursor_cache s"
  "closing (signal cid s) = closing s"
  "stream_closed (signal cid s) = stream_closed s"
  "written (signal cid s) = written s"
  "readers (signal cid s) = readers s"
  "handshakes (signal cid s) = handshakes s"
  "next_cursor (signal cid s) = next_cursor s"
  "clock (signal cid s) = clock s"
  "timeouts (signal cid s) = timeouts s"
  by (simp_all add: signal_def Future_def set_result_def split: option.splits)

lemma signal_next_future:
  "next_future (signal cid s) = (case cursors s cid of None \<Rightarrow> next_future s | Some c \<Rightarrow> Suc (next_future s))"
  by (simp add: signal_def Future_def set_result_def split: option.splits)

lemma signal_cursors:
  "cursors (signal cid s) =
     (cursors s)(cid := map_option (\<lambda>c. c\<lparr>new_response := next_future s\<rparr>) (cursors s cid))"
  by (auto simp add: signal_def Future_def set_result_def split: option.splits)

lemma signal_futures:
  "futures (signal cid s) =
     (case cursors s cid of None \<Rightarrow> futures s
      | Some c \<Rightarrow> ((futures s)(new_response c := futures s (new_response c) @ [Result PyTrue]))
                     (next_future s := []))"
  by (simp add: signal_def Future_def set_result_def split: option.splits)

lemma Cursor_error_frame [simp]:
  "user_queries (Cursor_error m cid s) = user_queries s"
  "cursor_cache (Cursor_error m cid s) = cursor_cache s"
  "closing (Cursor_error m cid s) = closing s"
  "stream_closed (Cursor_error m cid s) = stream_closed s"
  "written (Cursor_error m cid s) = written s"
  "readers (Cursor_error m cid s) = readers s"
  "handshakes (Cursor_error m cid s) = handshakes s"
  "next_cursor (Cursor_error m cid s) = next_cursor s"
  "clock (Cursor_error m cid s) = clock s"
  "timeouts (Cursor_error m cid s) = timeouts s"
  by (simp_all add: Cursor_error_def split: option.splits)

lemma Cursor_error_cursors:
  "cursors (Cursor_error m cid s) =
     (cursors s)(cid := map_option
        (\<lambda>c. c\<lparr>error := Failed (TerminalError m), new_response := next_future s\<rparr>) (cursors s cid))"
  by (auto simp add: Cursor_error_def signal_cursors split: option.splits)

lemma Cursor_error_next_future:
  "next_future s \<le> next_future (Cursor_error m cid s)"
  by (simp add: Cursor_error_def signal_next_future split: option.splits)

lemma Cursor_error_futures:
  "g < next_future s \<Longrightarrow> (\<And>c. cursors s cid = Some c \<Longrightarrow> new_response c \<noteq> g) \<Longrightarrow>
   futures (Cursor_error m cid s) g = futures s g"
  by (auto simp add: Cursor_error_def signal_futures split: option.splits)


lemma notify_cursors_frame [simp]:
  "user_queries (notify_cursors m s) = user_queries s"
  "closing (notify_cursors m s) = closing s"
  "stream_closed (notify_cursors m s) = stream_closed s"
  "written (notify_cursors m s) = written s"
  "readers (notify_cursors m s) = readers s"
  "handshakes (notify_cursors m s) = handshakes s"
  "next_cursor (notify_cursors m s) = next_cursor s"
  "clock (notify_cursors m s) = clock s"
  "timeouts (notify_cursors m s) = timeouts s"
proof -
  have "user_queries (fold (\<lambda>entry. Cursor_error m (snd entry)) es s) = user_queries s
      \<and> closing (fold (\<lambda>entry. Cursor_error m (snd entry)) es s) = closing s
      \<and> stream_closed (fold (\<lambda>entry. Cursor_error m (snd entry)) es s) = stream_closed s
      \<and> written (fold (\<lambda>entry. Cursor_error m (snd entry)) es s) = written s
      \<and> readers (fold (\<lambda>entry. Cursor_error m (snd entry)) es s) = readers s
      \<and> handshakes (fold (\<lambda>entry. Cursor_error m (snd entry)) es s) = handshakes s
      \<and> next_cursor (fold (\<lambda>entry. Cursor_error m (snd entry)) es s) = next_cursor s
      \<and> clock (fold (\<lambda>entry. Cursor_error m (snd entry)) es s) = clock s
      \<and> timeouts (fold (\<lambda>entry. Cursor_error m (snd entry)) es s) = timeouts s"
    for es :: "(token \<times> nat) list"
    by (induction es arbitrary: s) simp_all
  then show
    "user_queries (notify_cursors m s) = user_queries s"
    "closing (notify_cursors m s) = closing s"
    "stream_closed (notify_cursors m s) = stream_closed s"
    "written (notify_cursors m s) = written s"
    "readers (notify_cursors m s) = readers s"
    "handshakes (notify_cursors m s) = handshakes s"
    "next_cursor (notify_cursors m s) = next_cursor s"
    "clock (notify_cursors m s) = clock s"
    "timeouts (notify_cursors m s) = timeouts s"
    by (simp_all add: notify_cursors_def)
qed

lemma fold_Cursor_error_futures:
  "g < next_future s \<Longrightarrow>
   (\<And>cid c. cid \<in> snd ` set es \<Longrightarrow> cursors s cid = Some c \<Longrightarrow> new_response c \<noteq> g) \<Longrightarrow>
   futures (fold (\<lambda>entry. Cursor_error m (snd entry)) es s) g = futures s g \<and>
   g < next_future (fold (\<lambda>entry. Cursor_error m (snd entry)) es s)"
proof (induction es arbitrary: s)
  case Nil
  then show ?case by simp
next
  case (Cons e es)
  let ?s1 = "Cursor_error m (snd e) s"
  have lt: "g < next_future ?s1"
    using Cons.prems(1) Cursor_error_next_future [of s m "snd e"] by simp
  have sep: "new_response c \<noteq> g" if "cid \<in> snd ` set es" "cursors ?s1 cid = Some c" for cid c
  proof (cases "cid = snd e")
    case True
    with that(2) Cons.prems(1) show ?thesis
      by (auto simp add: Cursor_error_cursors)
  next
    case False
    with that Cons.prems(2) [of cid c] show ?thesis
      by (simp add: Cursor_error_cursors)
  qed
  have here: "futures ?s1 g = futures s g"
    using Cons.prems by (intro Cursor_error_futures) auto
  from Cons.IH [OF lt sep] here show ?case by simp
qed

lemma fold_Cursor_error_other:
  "cid \<notin> snd ` set es \<Longrightarrow>
   cursors (fold (\<lambda>entry. Cursor_error m (snd entry)) es s) cid = cursors s cid"
  by (induction es arbitrary: s) (simp_all add: Cursor_error_cursors)

lemma fold_Cursor_error_failed:
  "cursors s cid = Some c \<Longrightarrow>
   cid \<in> snd ` set es \<or> error c = Failed (TerminalError m) \<Longrightarrow>
   \<exists>c'. cursors (fold (\<lambda>entry. Cursor_error m (snd entry)) es s) cid = Some c' \<and>
        error c' = Failed (TerminalError m) \<and> items c' = items c \<and> cquery c' = cquery c"
proof (induction es arbitrary: s c)
  case Nil
  then show ?case by simp
next
  case (Cons e es)
  let ?s1 = "Cursor_error m (snd e) s"
  show ?case
  proof (cases "cid = snd e")
    case True
    let ?c1 = "c\<lparr>error := Failed (TerminalError m), new_response := next_future s\<rparr>"
    have "cursors ?s1 cid = Some ?c1"
      using True Cons.prems(1) by (simp add: Cursor_error_cursors)
    from Cons.IH [OF this] show ?thesis by simp
  next
    case False
    have "cursors ?s1 cid = Some c"
      using False Cons.prems(1) by (simp add: Cursor_error_cursors)
    moreover have "cid \<in> snd ` set es \<or> error c = Failed (TerminalError m)"
      using False Cons.prems(2) by auto
    ultimately show ?thesis using Cons.IH [of ?s1 c] by simp
  qed
qed

lemma fold_set_exception_frame:
  "cursors (fold (\<lambda>entry. set_exception (snd (snd entry)) x) es s) = cursors s \<and>
   user_queries (fold (\<lambda>entry. set_exception (snd (snd entry)) x) es s) = user_queries s \<and>
   cursor_cache (fold (\<lambda>entry. set_exception (snd (snd entry)) x) es s) = cursor_cache s \<and>
   closing (fold (\<lambda>entry. set_exception (snd (snd entry)) x) es s) = closing s \<and>
   stream_closed (fold (\<lambda>entry. set_exception (snd (snd entry)) x) es s) = stream_closed s \<and>
   written (fold (\<lambda>entry. set_exception (snd (snd entry)) x) es s) = written s \<and>
   readers (fold (\<lambda>entry. set_exception (snd (snd entry)) x) es s) = readers s \<and>
   handshakes (fold (\<lambda>entry. set_exception (snd (snd entry)) x) es s) = handshakes s \<and>
   next_future (fold (\<lambda>entry. set_exception (snd (snd entry)) x) es s) = next_future s \<and>
   next_cursor (fold (\<lambda>entry. set_exception (snd (snd entry)) x) es s) = next_cursor s \<and>
   clock (fold (\<lambda>entry. set_exception (snd (snd entry)) x) es s) = clock s \<and>
   timeouts (fold (\<lambda>entry. set_exception (snd (snd entry)) x) es s) = timeouts s"
  by (induction es arbitrary: s) (simp_all add: set_exception_def)

lemma fold_set_exception_futures:
  "futures (fold (\<lambda>entry. set_exception (snd (snd entry)) x) es s) g =
   futures s g @ replicate (count_list (map (\<lambda>entry. snd (snd entry)) es) g) (Exception x)"
  by (induction es arbitrary: s) (simp_all add: set_exception_def replicate_app_Cons_same)

lemma count_list_distinct:
  "distinct xs \<Longrightarrow> x \<in> set xs \<Longrightarrow> count_list xs x = 1"
  by (induction xs) (auto simp add: count_list_0_iff)


lemma notify_cursors_cache [simp]: "cursor_cache (notify_cursors m s) = cursor_cache s"
proof -
  have "cursor_cache (fold (\<lambda>entry. Cursor_error m (snd entry)) es s) = cursor_cache s"
    for es :: "(token \<times> nat) list"
    by (induction es arbitrary: s) simp_all
  then show ?thesis by (simp add: notify_cursors_def)
qed

lemma notify_cursors_next_future: "next_future s \<le> next_future (notify_cursors m s)"
proof -
  have "next_future s \<le> next_future (fold (\<lambda>entry. Cursor_error m (snd entry)) es s)"
    for es :: "(token \<times> nat) list"
  proof (induction es arbitrary: s)
    case Nil
    show ?case by simp
  next
    case (Cons e es)
    have "next_future s \<le> next_future (Cursor_error m (snd e) s)"
      by (rule Cursor_error_next_future)
    also have "\<dots> \<le> next_future (fold (\<lambda>entry. Cursor_error m (snd entry)) es (Cursor_error m (snd e) s))"
      by (rule Cons.IH)
    finally show ?case by simp
  qed
  then show ?thesis by (simp add: notify_cursors_def)
qed

lemma notify_queries_frame [simp]:
  "cursors (notify_queries m s) = cursors s"
  "user_queries (notify_queries m s) = user_queries s"
  "cursor_cache (notify_queries m s) = cursor_cache s"
  "closing (notify_queries m s) = closing s"
  "stream_closed (notify_queries m s) = stream_closed s"
  "written (notify_queries m s) = written s"
  "readers (notify_queries m s) = readers s"
  "handshakes (notify_queries m s) = handshakes s"
  "next_future (notify_queries m s) = next_future s"
  "next_cursor (notify_queries m s) = next_cursor s"
  "clock (notify_queries m s) = clock s"
  "timeouts (notify_queries m s) = timeouts s"
  using fold_set_exception_frame [of "RqlDriverError m" "user_queries s" s]
  by (simp_all add: notify_queries_def)

lemma notify_queries_futures:
  "futures (notify_queries m s) g =
   futures s g @ replicate (count_list (pending_futures s) g) (Exception (RqlDriverError m))"
  by (simp add: notify_queries_def pending_futures_def fold_set_exception_futures)

lemma teardown_frame [simp]:
  "user_queries (teardown str_exn e h s) = []"
  "cursor_cache (teardown str_exn e h s) = []"
  "closing (teardown str_exn e h s)"
  "stream_closed (teardown str_exn e h s) = stream_closed s"
  "written (teardown str_exn e h s) = written s"
  "readers (teardown str_exn e h s) = readers s"
  "handshakes (teardown str_exn e h s) = handshakes s"
  "next_cursor (teardown str_exn e h s) = next_cursor s"
  "clock (teardown str_exn e h s) = clock s"
  "timeouts (teardown str_exn e h s) = timeouts s"
  by (simp_all add: teardown_def clear_tables_def Let_def)

lemma teardown_next_future: "next_future s \<le> next_future (teardown str_exn e h s)"
  using notify_cursors_next_future [of "s\<lparr>closing := True\<rparr>" "err_message str_exn e h"]
  by (simp add: teardown_def clear_tables_def Let_def)

lemma teardown_futures_other:
  assumes "g < next_future s"
    and "\<And>cid c. cid \<in> snd ` set (cursor_cache s) \<Longrightarrow> cursors s cid = Some c \<Longrightarrow> new_response c \<noteq> g"
  shows "futures (teardown str_exn e h s) g =
         futures s g @ replicate (count_list (pending_futures s) g)
                         (Exception (RqlDriverError (err_message str_exn e h)))"
proof -
  let ?m = "err_message str_exn e h"
  let ?s0 = "s\<lparr>closing := True\<rparr>"
  have "futures (notify_cursors ?m ?s0) g = futures ?s0 g"
    unfolding notify_cursors_def
    using fold_Cursor_error_futures [of g ?s0 "cursor_cache ?s0" ?m] assms by simp
  moreover have "pending_futures (notify_cursors ?m ?s0) = pending_futures s"
    by (simp add: pending_futures_def)
  ultimately show ?thesis
    by (simp add: teardown_def clear_tables_def Let_def notify_queries_futures)
qed

lemma teardown_futures:
  assumes "wf s" and "f \<in> set (pending_futures s)"
  shows "futures (teardown str_exn e h s) f = [Exception (RqlDriverError (err_message str_exn e h))]"
proof -
  have lt: "f < next_future s" and run: "futures s f = []"
    using assms by (auto simp add: wf_def)
  have sep: "new_response c \<noteq> f" if "cid \<in> snd ` set (cursor_cache s)" "cursors s cid = Some c" for cid c
    using assms that by (fastforce simp add: wf_def)
  have "count_list (pending_futures s) f = 1"
    using assms by (intro count_list_distinct) (auto simp add: wf_def)
  with teardown_futures_other [OF lt sep] run show ?thesis by simp
qed

lemma teardown_cursors:
  assumes "wf s" and "cid \<in> snd ` set (cursor_cache s)"
  shows "\<exists>c c'. cursors s cid = Some c \<and> cursors (teardown str_exn e h s) cid = Some c' \<and>
           error c' = Failed (TerminalError (err_message str_exn e h)) \<and>
           items c' = items c \<and> cquery c' = cquery c"
proof -
  let ?m = "err_message str_exn e h"
  let ?s0 = "s\<lparr>closing := True\<rparr>"
  obtain c where c: "cursors s cid = Some c"
    using assms by (fastforce simp add: wf_def split: option.splits)
  have "\<exists>c'. cursors (fold (\<lambda>entry. Cursor_error ?m (snd entry)) (cursor_cache ?s0) ?s0) cid = Some c' \<and>
        error c' = Failed (TerminalError ?m) \<and> items c' = items c \<and> cquery c' = cquery c"
    using c assms(2) by (intro fold_Cursor_error_failed) simp_all
  with c show ?thesis
    by (simp add: teardown_def clear_tables_def Let_def notify_cursors_def)
qed

lemma teardown_cursors_other:
  "cid \<notin> snd ` set (cursor_cache s) \<Longrightarrow> cursors (teardown str_exn e h s) cid = cursors s cid"
  using fold_Cursor_error_other [of cid "cursor_cache (s\<lparr>closing := True\<rparr>)" _ "s\<lparr>closing := True\<rparr>"]
  by (simp add: teardown_def clear_tables_def Let_def notify_cursors_def)

lemma wf_sample: "wf sample"
  by (simp add: wf_def sample_def pending_futures_def)

lemma close_no_wait:
  "close str_exn False token e h s = (Returned, stream_close (teardown str_exn e h s))"
  by (simp add: close_def)

lemma close_wait_closed:
  "stream_closed s \<Longrightarrow>
   close str_exn True token e h s = (Raised StreamClosedError, teardown str_exn e h s)"
  by (simp add: close_def run_query_def)

lemma close_futures:
  "f < next_future s \<Longrightarrow>
   futures (snd (close str_exn nw token e h s)) f = futures (teardown str_exn e h s) f"
  using teardown_next_future [of s str_exn e h]
  by (auto simp add: close_def run_query_def Future_def stream_close_def Let_def)

lemma close_cursors:
  "cursors (snd (close str_exn nw token e h s)) = cursors (teardown str_exn e h s)"
  by (simp add: close_def run_query_def Future_def stream_close_def Let_def)

lemma close_closing: "closing (snd (close str_exn nw token e h s))"
  by (simp add: close_def run_query_def Future_def stream_close_def Let_def)


text \<open>
  C9. When \<^verbatim>\<open>close\<close> is called with \<^verbatim>\<open>exc_info\<close> set while the exception \<open>ex\<close> is
  being handled, the reason is the literal text \<^verbatim>\<open>Connection is closed (%s).\<close> followed
  by \<^verbatim>\<open>str(ex)\<close>, the placeholder left as it is; every pending request is failed with
  a driver error of that reason and every cursor of the cursor table gets a terminal error
  of that reason.
\<close>

theorem close_reason_keeps_placeholder:
  assumes "wf s"
  shows "err_message str_exn True (Some ex) = ''Connection is closed (%s).'' @ str_exn ex \<and>
    (\<forall>f \<in> set (pending_futures s).
       futures (snd (close str_exn nw token True (Some ex) s)) f =
         [Exception (RqlDriverError (''Connection is closed (%s).'' @ str_exn ex))]) \<and>
    (\<forall>cid \<in> snd ` set (cursor_cache s).
       \<exists>c. cursors (snd (close str_exn nw token True (Some ex) s)) cid = Some c \<and>
           error c = Failed (TerminalError (''Connection is closed (%s).'' @ str_exn ex)))"
proof -
  have m: "err_message str_exn True (Some ex) = ''Connection is closed (%s).'' @ str_exn ex"
    by (simp add: err_message_def py_str_def)
  have "futures (snd (close str_exn nw token True (Some ex) s)) f =
          [Exception (RqlDriverError (''Connection is closed (%s).'' @ str_exn ex))]"
    if "f \<in> set (pending_futures s)" for f
  proof -
    have "f < next_future s" using assms that by (simp add: wf_def)
    then show ?thesis
      using teardown_futures [OF assms that, of str_exn True "Some ex"] m
      by (simp add: close_futures)
  qed
  moreover have "\<exists>c. cursors (snd (close str_exn nw token True (Some ex) s)) cid = Some c \<and>
           error c = Failed (TerminalError (''Connection is closed (%s).'' @ str_exn ex))"
    if "cid \<in> snd ` set (cursor_cache s)" for cid
    using teardown_cursors [OF assms that, of str_exn True "Some ex"] m
    by (auto simp add: close_cursors)
  ultimately show ?thesis using m by blast
qed

theorem close_reason_keeps_placeholder_witness:
  "wf sample \<and> set (pending_futures sample) = {0, 1} \<and> snd ` set (cursor_cache sample) = {0} \<and>
   futures (snd (close sample_str False None True (Some IndexError) sample)) 0 =
     [Exception (RqlDriverError ''Connection is closed (%s).list index out of range'')] \<and>
   futures (snd (close sample_str False None True (Some IndexError) sample)) 1 =
     [Exception (RqlDriverError ''Connection is closed (%s).list index out of range'')] \<and>
   (\<exists>c. cursors (snd (close sample_str False None True (Some IndexError) sample)) 0 = Some c \<and>
        error c = Failed (TerminalError ''Connection is closed (%s).list index out of range''))"
proof -
  have p: "set (pending_futures sample) = {0, 1}"
    by (auto simp add: sample_def pending_futures_def)
  have c: "snd ` set (cursor_cache sample) = {0}"
    by (simp add: sample_def)
  have s: "sample_str IndexError = ''list index out of range''"
    by (simp add: sample_str_def)
  show ?thesis
    using close_reason_keeps_placeholder [OF wf_sample, of sample_str IndexError False None]
      wf_sample p c s
    by simp
qed



lemma close_wait_open:
  "\<not> stream_closed s \<Longrightarrow>
   close str_exn True token e h s =
     (Awaiting (next_future (teardown str_exn e h s)),
      (teardown str_exn e h s)
        \<lparr>written := written s @ [noreply_query token],
         futures := (futures (teardown str_exn e h s))(next_future (teardown str_exn e h s) := []),
         next_future := Suc (next_future (teardown str_exn e h s)),
         user_queries := [(token, (noreply_query token, next_future (teardown str_exn e h s)))]\<rparr>)"
  by (simp add: close_def run_query_def Future_def noreply_query_def Let_def)

lemma reader_except_open:
  assumes "wf s" "\<not> closing s"
  shows "(\<forall>f \<in> set (pending_futures s).
            futures (reader_except str_exn ex s) f =
              [Exception (RqlDriverError (''Connection is closed (%s).'' @ str_exn ex))]) \<and>
         (\<forall>cid \<in> snd ` set (cursor_cache s).
            \<exists>c. cursors (reader_except str_exn ex s) cid = Some c \<and>
                error c = Failed (TerminalError (''Connection is closed (%s).'' @ str_exn ex))) \<and>
         user_queries (reader_except str_exn ex s) = [] \<and>
         cursor_cache (reader_except str_exn ex s) = [] \<and>
         written (reader_except str_exn ex s) = written s \<and>
         stream_closed (reader_except str_exn ex s) \<and>
         closing (reader_except str_exn ex s)"
proof -
  have m: "err_message str_exn True (Some ex) = ''Connection is closed (%s).'' @ str_exn ex"
    by (simp add: err_message_def py_str_def)
  have r: "reader_except str_exn ex s = stream_close (teardown str_exn True (Some ex) s)"
    using assms(2) by (simp add: reader_except_def close_no_wait)
  have "futures (reader_except str_exn ex s) f =
          [Exception (RqlDriverError (''Connection is closed (%s).'' @ str_exn ex))]"
    if "f \<in> set (pending_futures s)" for f
    using teardown_futures [OF assms(1) that, of str_exn True "Some ex"] m r
    by (simp add: stream_close_def)
  moreover have "\<exists>c. cursors (reader_except str_exn ex s) cid = Some c \<and>
                error c = Failed (TerminalError (''Connection is closed (%s).'' @ str_exn ex))"
    if "cid \<in> snd ` set (cursor_cache s)" for cid
    using teardown_cursors [OF assms(1) that, of str_exn True "Some ex"] m r
    by (auto simp add: stream_close_def)
  ultimately show ?thesis using r by (simp add: stream_close_def)
qed

lemma reader_except_closing: "closing s \<Longrightarrow> reader_except str_exn ex s = s"
  by (simp add: reader_except_def)

lemma reader_body_unexpected:
  assumes "map_of (cursor_cache s) (rtoken res) = None"
    and "map_of (user_queries s) (Some (rtoken res)) = None"
  shows "reader_body convert_pseudo make_error res s =
           (if \<not> closing s then Some (RqlDriverError ''Unexpected response received.'') else None, s)"
  using assms by (simp add: reader_body_def)

text \<open>
  C5. A frame whose token is in neither table: if the instance is not closing, the reader
  raises the driver error \<^verbatim>\<open>Unexpected response received.\<close> and its handler tears the
  connection down, so that every pending request and every cursor of the tables is
  resolved with the connection-closed reason, both tables are emptied and the stream is
  closed; if the instance is closing, the frame changes nothing and the loop goes on.
\<close>

theorem unexpected_token:
  assumes "wf s"
    and "map_of (cursor_cache s) (rtoken res) = None"
    and "map_of (user_queries s) (Some (rtoken res)) = None"
  shows "(closing s \<longrightarrow>
            reader_step convert_pseudo make_error str_exn (Frame res) s = (True, s)) \<and>
         (\<not> closing s \<longrightarrow>
            fst (reader_body convert_pseudo make_error res s) =
              Some (RqlDriverError ''Unexpected response received.'') \<and>
            \<not> fst (reader_step convert_pseudo make_error str_exn (Frame res) s) \<and>
            snd (close str_exn False None True
                   (Some (RqlDriverError ''Unexpected response received.'')) s) =
              snd (reader_step convert_pseudo make_error str_exn (Frame res) s) \<and>
            (\<forall>f \<in> set (pending_futures s).
               futures (snd (reader_step convert_pseudo make_error str_exn (Frame res) s)) f =
                 [Exception (RqlDriverError (''Connection is closed (%s).'' @
                    str_exn (RqlDriverError ''Unexpected response received.'')))]) \<and>
            (\<forall>cid \<in> snd ` set (cursor_cache s).
               \<exists>c. cursors (snd (reader_step convert_pseudo make_error str_exn (Frame res) s)) cid = Some c \<and>
                   error c = Failed (TerminalError (''Connection is closed (%s).'' @
                     str_exn (RqlDriverError ''Unexpected response received.'')))) \<and>
            user_queries (snd (reader_step convert_pseudo make_error str_exn (Frame res) s)) = [] \<and>
            cursor_cache (snd (reader_step convert_pseudo make_error str_exn (Frame res) s)) = [] \<and>
            stream_closed (snd (reader_step convert_pseudo make_error str_exn (Frame res) s)))"
proof -
  let ?ex = "RqlDriverError ''Unexpected response received.'' :: 'a exn"
  have body: "reader_body convert_pseudo make_error res s =
           (if \<not> closing s then Some ?ex else None, s)"
    using assms(2,3) by (rule reader_body_unexpected)
  have 1: "reader_step convert_pseudo make_error str_exn (Frame res) s = (True, s)" if "closing s"
    using that body by (simp add: reader_step_def)
  have step: "reader_step convert_pseudo make_error str_exn (Frame res) s =
                (False, reader_except str_exn ?ex s)" if "\<not> closing s"
    using that body by (simp add: reader_step_def)
  have cl: "reader_except str_exn ?ex s = snd (close str_exn False None True (Some ?ex) s)"
    if "\<not> closing s"
    using that by (simp add: reader_except_def)
  show ?thesis
  proof (cases "closing s")
    case True
    with 1 show ?thesis by simp
  next
    case False
    from reader_except_open [OF assms(1) False, of str_exn ?ex] step [OF False] cl [OF False] body False
    show ?thesis by simp
  qed
qed


lemma sample_sets:
  "set (pending_futures sample) = {0, 1}"
  "snd ` set (cursor_cache sample) = {0}"
  "\<not> closing sample"
  "\<not> stream_closed sample"
  by (auto simp add: sample_def pending_futures_def)

lemma wf_sample_closing: "wf (sample\<lparr>closing := True\<rparr>)"
  by (simp add: wf_def sample_def pending_futures_def)

theorem unexpected_token_witness:
  "wf sample \<and> \<not> closing sample \<and>
   map_of (cursor_cache sample) (rtoken (frame 99 SUCCESS_ATOM [5])) = None \<and>
   map_of (user_queries sample) (Some (rtoken (frame 99 SUCCESS_ATOM [5]))) = None \<and>
   set (pending_futures sample) = {0, 1} \<and> snd ` set (cursor_cache sample) = {0} \<and>
   \<not> fst (reader_step sample_convert sample_error sample_str (Frame (frame 99 SUCCESS_ATOM [5])) sample)
     \<and>
   futures (snd (reader_step sample_convert sample_error sample_str
                   (Frame (frame 99 SUCCESS_ATOM [5])) sample)) 0 =
     [Exception (RqlDriverError ''Connection is closed (%s).Unexpected response received.'')] \<and>
   futures (snd (reader_step sample_convert sample_error sample_str
                   (Frame (frame 99 SUCCESS_ATOM [5])) sample)) 1 =
     [Exception (RqlDriverError ''Connection is closed (%s).Unexpected response received.'')] \<and>
   (\<exists>c. cursors (snd (reader_step sample_convert sample_error sample_str
                        (Frame (frame 99 SUCCESS_ATOM [5])) sample)) 0 = Some c \<and>
        error c = Failed (TerminalError
          ''Connection is closed (%s).Unexpected response received.'')) \<and>
   stream_closed (snd (reader_step sample_convert sample_error sample_str
                         (Frame (frame 99 SUCCESS_ATOM [5])) sample)) \<and>
   wf (sample\<lparr>closing := True\<rparr>) \<and> closing (sample\<lparr>closing := True\<rparr>) \<and>
   reader_step sample_convert sample_error sample_str (Frame (frame 99 SUCCESS_ATOM [5]))
     (sample\<lparr>closing := True\<rparr>) = (True, sample\<lparr>closing := True\<rparr>)"
proof -
  have n1: "map_of (cursor_cache sample) (rtoken (frame 99 SUCCESS_ATOM [5])) = None"
    and n2: "map_of (user_queries sample) (Some (rtoken (frame 99 SUCCESS_ATOM [5]))) = None"
    by (simp_all add: sample_def frame_def)
  have n3: "map_of (cursor_cache (sample\<lparr>closing := True\<rparr>)) (rtoken (frame 99 SUCCESS_ATOM [5])) = None"
    and n4: "map_of (user_queries (sample\<lparr>closing := True\<rparr>)) (Some (rtoken (frame 99 SUCCESS_ATOM [5]))) = None"
    by (simp_all add: sample_def frame_def)
  have s: "sample_str (RqlDriverError ''Unexpected response received.'') =
             ''Unexpected response received.''"
    by (simp add: sample_str_def)
  have 1: "\<not> fst (reader_step sample_convert sample_error sample_str (Frame (frame 99 SUCCESS_ATOM [5])) sample)
     \<and>
   futures (snd (reader_step sample_convert sample_error sample_str
                   (Frame (frame 99 SUCCESS_ATOM [5])) sample)) 0 =
     [Exception (RqlDriverError ''Connection is closed (%s).Unexpected response received.'')] \<and>
   futures (snd (reader_step sample_convert sample_error sample_str
                   (Frame (frame 99 SUCCESS_ATOM [5])) sample)) 1 =
     [Exception (RqlDriverError ''Connection is closed (%s).Unexpected response received.'')] \<and>
   (\<exists>c. cursors (snd (reader_step sample_convert sample_error sample_str
                        (Frame (frame 99 SUCCESS_ATOM [5])) sample)) 0 = Some c \<and>
        error c = Failed (TerminalError
          ''Connection is closed (%s).Unexpected response received.'')) \<and>
   stream_closed (snd (reader_step sample_convert sample_error sample_str
                         (Frame (frame 99 SUCCESS_ATOM [5])) sample))"
    using unexpected_token [OF wf_sample n1 n2, of sample_convert sample_error sample_str]
      sample_sets s
    by simp
  have 2: "reader_step sample_convert sample_error sample_str (Frame (frame 99 SUCCESS_ATOM [5]))
     (sample\<lparr>closing := True\<rparr>) = (True, sample\<lparr>closing := True\<rparr>)"
    using unexpected_token [OF wf_sample_closing n3 n4, of sample_convert sample_error sample_str]
    by simp
  from wf_sample wf_sample_closing sample_sets n1 n2 1 2 show ?thesis by simp
qed

lemma pending_lookup:
  "map_of (user_queries s) k = Some (q, f) \<Longrightarrow> f \<in> set (pending_futures s)"
  by (force dest: map_of_SomeD simp add: pending_futures_def)

lemma cached_lookup:
  "map_of (cursor_cache s) t = Some cid \<Longrightarrow> cid \<in> snd ` set (cursor_cache s)"
  by (force dest: map_of_SomeD)

lemma wf_pending:
  "wf s \<Longrightarrow> f \<in> set (pending_futures s) \<Longrightarrow> futures s f = [] \<and> f < next_future s"
  by (simp add: wf_def)

lemma reader_body_empty_atom:
  assumes "map_of (cursor_cache s) (rtoken res) = None"
    and "map_of (user_queries s) (Some (rtoken res)) = Some (q, f)"
    and "rtype res = SUCCESS_ATOM" and "data res = []"
  shows "reader_body convert_pseudo make_error res s = (Some IndexError, s)"
  using assms by (simp add: reader_body_def)

text \<open>
  C10, as amended. A SUCCESS_ATOM response with an empty data array for a pending request:
  the access to the first element raises \<^verbatim>\<open>IndexError\<close> inside the reader loop, which
  ends. If the instance is not closing, the handler tears the connection down with
  \<^verbatim>\<open>close(False, None, exc_info=True)\<close>: the request's handle, like every other
  pending one, is failed with the connection-closed driver error, not completed with a
  value, every cursor of the cursor table gets the terminal error, both tables are emptied
  and the stream is closed. If the instance is closing, the handler does nothing: the
  state stays as it was.
\<close>

theorem empty_atom_tears_down:
  assumes "wf s"
    and "map_of (cursor_cache s) (rtoken res) = None"
    and "map_of (user_queries s) (Some (rtoken res)) = Some (q, f)"
    and "rtype res = SUCCESS_ATOM" and "data res = []"
  shows "fst (reader_body convert_pseudo make_error res s) = Some IndexError \<and>
         (closing s \<longrightarrow>
            reader_step convert_pseudo make_error str_exn (Frame res) s = (False, s)) \<and>
         (\<not> closing s \<longrightarrow>
            \<not> fst (reader_step convert_pseudo make_error str_exn (Frame res) s) \<and>
            snd (close str_exn False None True (Some IndexError) s) =
              snd (reader_step convert_pseudo make_error str_exn (Frame res) s) \<and>
            futures (snd (reader_step convert_pseudo make_error str_exn (Frame res) s)) f =
              [Exception (RqlDriverError (''Connection is closed (%s).'' @ str_exn IndexError))] \<and>
            (\<forall>g \<in> set (pending_futures s).
               futures (snd (reader_step convert_pseudo make_error str_exn (Frame res) s)) g =
                 [Exception (RqlDriverError (''Connection is closed (%s).'' @ str_exn IndexError))]) \<and>
            (\<forall>cid \<in> snd ` set (cursor_cache s).
               \<exists>c. cursors (snd (reader_step convert_pseudo make_error str_exn (Frame res) s)) cid = Some c \<and>
                   error c = Failed (TerminalError (''Connection is closed (%s).'' @ str_exn IndexError))) \<and>
            user_queries (snd (reader_step convert_pseudo make_error str_exn (Frame res) s)) = [] \<and>
            cursor_cache (snd (reader_step convert_pseudo make_error str_exn (Frame res) s)) = [] \<and>
            stream_closed (snd (reader_step convert_pseudo make_error str_exn (Frame res) s)))"
proof -
  have body: "reader_body convert_pseudo make_error res s = (Some IndexError, s)"
    using assms(2-5) by (rule reader_body_empty_atom)
  have step: "reader_step convert_pseudo make_error str_exn (Frame res) s =
                (False, reader_except str_exn IndexError s)"
    using body by (simp add: reader_step_def)
  have f: "f \<in> set (pending_futures s)"
    using assms(3) by (rule pending_lookup)
  show ?thesis
  proof (cases "closing s")
    case True
    with step body show ?thesis by (simp add: reader_except_closing)
  next
    case False
    have cl: "reader_except str_exn IndexError s = snd (close str_exn False None True (Some IndexError) s)"
      using False by (simp add: reader_except_def)
    from reader_except_open [OF assms(1) False, of str_exn IndexError] step cl body False f
    show ?thesis by simp
  qed
qed

theorem empty_atom_tears_down_witness:
  "wf sample \<and> \<not> closing sample \<and>
   map_of (cursor_cache sample) (rtoken (frame 1 SUCCESS_ATOM [])) = None \<and>
   map_of (user_queries sample) (Some (rtoken (frame 1 SUCCESS_ATOM []))) = Some (start_query 1, 0) \<and>
   rtype (frame 1 SUCCESS_ATOM []) = SUCCESS_ATOM \<and> data (frame 1 SUCCESS_ATOM []) = [] \<and>
   set (pending_futures sample) = {0, 1} \<and> snd ` set (cursor_cache sample) = {0} \<and>
   \<not> fst (reader_step sample_convert sample_error sample_str (Frame (frame 1 SUCCESS_ATOM [])) sample) \<and>
   futures (snd (reader_step sample_convert sample_error sample_str
                   (Frame (frame 1 SUCCESS_ATOM [])) sample)) 0 =
     [Exception (RqlDriverError ''Connection is closed (%s).list index out of range'')] \<and>
   futures (snd (reader_step sample_convert sample_error sample_str
                   (Frame (frame 1 SUCCESS_ATOM [])) sample)) 1 =
     [Exception (RqlDriverError ''Connection is closed (%s).list index out of range'')] \<and>
   (\<exists>c. cursors (snd (reader_step sample_convert sample_error sample_str
                        (Frame (frame 1 SUCCESS_ATOM [])) sample)) 0 = Some c \<and>
        error c = Failed (TerminalError ''Connection is closed (%s).list index out of range'')) \<and>
   stream_closed (snd (reader_step sample_convert sample_error sample_str
                         (Frame (frame 1 SUCCESS_ATOM [])) sample)) \<and>
   wf (sample\<lparr>closing := True\<rparr>) \<and> closing (sample\<lparr>closing := True\<rparr>) \<and>
   reader_step sample_convert sample_error sample_str (Frame (frame 1 SUCCESS_ATOM []))
     (sample\<lparr>closing := True\<rparr>) = (False, sample\<lparr>closing := True\<rparr>)"
proof -
  have n1: "map_of (cursor_cache sample) (rtoken (frame 1 SUCCESS_ATOM [])) = None"
    and n2: "map_of (user_queries sample) (Some (rtoken (frame 1 SUCCESS_ATOM []))) = Some (start_query 1, 0)"
    and n3: "map_of (cursor_cache (sample\<lparr>closing := True\<rparr>)) (rtoken (frame 1 SUCCESS_ATOM [])) = None"
    and n4: "map_of (user_queries (sample\<lparr>closing := True\<rparr>)) (Some (rtoken (frame 1 SUCCESS_ATOM [])))
               = Some (start_query 1, 0)"
    and ty: "rtype (frame 1 SUCCESS_ATOM []) = SUCCESS_ATOM"
    and em: "data (frame 1 SUCCESS_ATOM []) = []"
    by (simp_all add: sample_def frame_def)
  have s: "sample_str IndexError = ''list index out of range''"
    by (simp add: sample_str_def)
  have 1: "\<not> fst (reader_step sample_convert sample_error sample_str (Frame (frame 1 SUCCESS_ATOM [])) sample) \<and>
   futures (snd (reader_step sample_convert sample_error sample_str
                   (Frame (frame 1 SUCCESS_ATOM [])) sample)) 0 =
     [Exception (RqlDriverError ''Connection is closed (%s).list index out of range'')] \<and>
   futures (snd (reader_step sample_convert sample_error sample_str
                   (Frame (frame 1 SUCCESS_ATOM [])) sample)) 1 =
     [Exception (RqlDriverError ''Connection is closed (%s).list index out of range'')] \<and>
   (\<exists>c. cursors (snd (reader_step sample_convert sample_error sample_str
                        (Frame (frame 1 SUCCESS_ATOM [])) sample)) 0 = Some c \<and>
        error c = Failed (TerminalError ''Connection is closed (%s).list index out of range'')) \<and>
   stream_closed (snd (reader_step sample_convert sample_error sample_str
                         (Frame (frame 1 SUCCESS_ATOM [])) sample))"
    using empty_atom_tears_down [OF wf_sample n1 n2 ty em, of sample_convert sample_error sample_str]
      sample_sets s
    by simp
  have 2: "reader_step sample_convert sample_error sample_str (Frame (frame 1 SUCCESS_ATOM []))
     (sample\<lparr>closing := True\<rparr>) = (False, sample\<lparr>closing := True\<rparr>)"
    using empty_atom_tears_down [OF wf_sample_closing n3 n4 ty em, of sample_convert sample_error sample_str]
    by simp
  from wf_sample wf_sample_closing sample_sets n1 n2 ty em 1 2 show ?thesis by simp
qed

text \<open>
  While \<^verbatim>\<open>close\<close> waits for the reply to its NOREPLY_WAIT request, under the token 9,
  the instance is closing. An empty SUCCESS_ATOM frame for that token then tears nothing
  down: the request stays in the table, its future unresolved, and the stream open.
\<close>

theorem empty_atom_while_closing_unresolved:
  "close sample_str True (Some 9) False None sample =
     (Awaiting 4, snd (close sample_str True (Some 9) False None sample)) \<and>
   closing (snd (close sample_str True (Some 9) False None sample)) \<and>
   map_of (cursor_cache (snd (close sample_str True (Some 9) False None sample))) 9 = None \<and>
   map_of (user_queries (snd (close sample_str True (Some 9) False None sample))) (Some 9) =
     Some (noreply_query (Some 9), 4) \<and>
   futures (snd (reader_step sample_convert sample_error sample_str (Frame (frame 9 SUCCESS_ATOM []))
                   (snd (close sample_str True (Some 9) False None sample)))) 4 = [] \<and>
   \<not> stream_closed (snd (reader_step sample_convert sample_error sample_str
                           (Frame (frame 9 SUCCESS_ATOM []))
                           (snd (close sample_str True (Some 9) False None sample)))) \<and>
   map_of (user_queries (snd (reader_step sample_convert sample_error sample_str
                                (Frame (frame 9 SUCCESS_ATOM []))
                                (snd (close sample_str True (Some 9) False None sample)))))
     (Some 9) = Some (noreply_query (Some 9), 4)"
proof -
  have nf: "next_future (teardown sample_str False None sample) = 4"
    by (simp add: teardown_def clear_tables_def notify_queries_def notify_cursors_def
        Cursor_error_def signal_def set_result_def set_exception_def resolve_def Future_def
        sample_def Let_def)
  have op: "\<not> stream_closed sample" by (simp add: sample_def)
  have cl: "close sample_str True (Some 9) False None sample =
     (Awaiting 4,
      (teardown sample_str False None sample)
        \<lparr>written := written sample @ [noreply_query (Some 9)],
         futures := (futures (teardown sample_str False None sample))(4 := []),
         next_future := 5,
         user_queries := [(Some 9, (noreply_query (Some 9), 4))]\<rparr>)"
    using close_wait_open [OF op, of sample_str "Some 9" False None] nf by simp
  show ?thesis
    unfolding cl
    by (simp add: reader_step_def reader_body_def reader_except_def frame_def op)
qed

lemma wf_cached:
  "wf s \<Longrightarrow> cid \<in> snd ` set (cursor_cache s) \<Longrightarrow>
   cid < next_cursor s \<and>
   (\<exists>c. cursors s cid = Some c \<and> new_response c < next_future s \<and>
        new_response c \<notin> set (pending_futures s))"
  by (auto simp add: wf_def split: option.splits)

lemma reader_step_frame_ok:
  "fst (reader_body convert_pseudo make_error res s) = None \<Longrightarrow>
   reader_step convert_pseudo make_error str_exn (Frame res) s =
     (True, snd (reader_body convert_pseudo make_error res s))"
  by (cases "reader_body convert_pseudo make_error res s") (simp add: reader_step_def)

lemma reader_body_atom:
  assumes "map_of (cursor_cache s) (rtoken res) = None"
    and "map_of (user_queries s) (Some (rtoken res)) = Some (q, f)"
    and "rtype res = SUCCESS_ATOM" and "data res = d # ds"
  shows "reader_body convert_pseudo make_error res s =
           (None, (set_result f (maybe_profile (Datum (convert_pseudo d q)) res) s)
                    \<lparr>user_queries := AList.delete (Some (rtoken res)) (user_queries s)\<rparr>)"
  using assms by (simp add: reader_body_def)

lemma reader_body_wait_complete:
  assumes "map_of (cursor_cache s) (rtoken res) = None"
    and "map_of (user_queries s) (Some (rtoken res)) = Some (q, f)"
    and "rtype res = WAIT_COMPLETE"
  shows "reader_body convert_pseudo make_error res s =
           (None, (set_result f PyNone s)
                    \<lparr>user_queries := AList.delete (Some (rtoken res)) (user_queries s)\<rparr>)"
  using assms by (simp add: reader_body_def)

lemma reader_body_error:
  assumes "map_of (cursor_cache s) (rtoken res) = None"
    and "map_of (user_queries s) (Some (rtoken res)) = Some (q, f)"
    and "rtype res = OTHER_RESPONSE n"
  shows "reader_body convert_pseudo make_error res s =
           (None, (set_exception f (make_error res q) s)
                    \<lparr>user_queries := AList.delete (Some (rtoken res)) (user_queries s)\<rparr>)"
  using assms by (simp add: reader_body_def)

text \<open>The state after the branch of the reader that creates a cursor.\<close>

lemma reader_body_sequence:
  assumes "map_of (cursor_cache s) (rtoken res) = None"
    and "map_of (user_queries s) (Some (rtoken res)) = Some (q, f)"
    and "rtype res \<in> {SUCCESS_SEQUENCE, SUCCESS_PARTIAL}"
  shows "fst (reader_body convert_pseudo make_error res s) = None"
    and "cursor_cache (snd (reader_body convert_pseudo make_error res s)) =
           AList.update (rtoken res) (next_cursor s) (cursor_cache s)"
    and "user_queries (snd (reader_body convert_pseudo make_error res s)) =
           AList.delete (Some (rtoken res)) (user_queries s)"
    and "cursors (snd (reader_body convert_pseudo make_error res s)) =
           (cursors s)(next_cursor s \<mapsto>
              \<lparr>cquery = q, items = data res,
               error = (if rtype res = SUCCESS_SEQUENCE then ErrFalse else ErrNone),
               fetching = False, new_response = Suc (next_future s)\<rparr>)"
    and "futures (snd (reader_body convert_pseudo make_error res s)) =
           ((futures s)(next_future s := [Result PyTrue], Suc (next_future s) := []))
             (f := (if f = Suc (next_future s) then []
                    else if f = next_future s then [Result PyTrue] else futures s f)
                   @ [Result (maybe_profile (CursorRef (next_cursor s)) res)])"
    and "next_future (snd (reader_body convert_pseudo make_error res s)) = Suc (Suc (next_future s))"
    and "next_cursor (snd (reader_body convert_pseudo make_error res s)) = Suc (next_cursor s)"
    and "closing (snd (reader_body convert_pseudo make_error res s)) = closing s"
    and "stream_closed (snd (reader_body convert_pseudo make_error res s)) = stream_closed s"
  using assms
  by (auto simp add: reader_body_def TornadoCursor_def Future_def extend_def signal_def
      set_result_def resolve_def Cursor_extend_def Cursor_init_def Let_def)


text \<open>
  C1, as amended. A frame whose token has a pending request and no cursor, from a
  well-formed state, and whose data array is not empty if its type is SUCCESS_ATOM: the
  loop goes on, the token is no longer in the pending-request table, and the request's
  future has received exactly one resolution, which is: for SUCCESS_ATOM the first datum,
  decoded, with the profile attached if the response has one; for SUCCESS_SEQUENCE and
  SUCCESS_PARTIAL the new cursor, with the profile attached if the response has one, the
  cursor being a new object, registered in the cursor table under the token and holding
  the rows of this first batch; for WAIT_COMPLETE \<^verbatim>\<open>None\<close>; for every other type the
  error that \<open>make_error\<close> builds from the response and the query.
\<close>

theorem pending_request_resolved:
  assumes "wf s"
    and "map_of (cursor_cache s) (rtoken res) = None"
    and "map_of (user_queries s) (Some (rtoken res)) = Some (q, f)"
    and "rtype res = SUCCESS_ATOM \<longrightarrow> data res \<noteq> []"
  shows "fst (reader_step convert_pseudo make_error str_exn (Frame res) s) \<and>
    map_of (user_queries (snd (reader_step convert_pseudo make_error str_exn (Frame res) s)))
      (Some (rtoken res)) = None \<and>
    (rtype res = SUCCESS_ATOM \<longrightarrow>
       futures (snd (reader_step convert_pseudo make_error str_exn (Frame res) s)) f =
         [Result (maybe_profile (Datum (convert_pseudo (hd (data res)) q)) res)] \<and>
       cursor_cache (snd (reader_step convert_pseudo make_error str_exn (Frame res) s)) =
         cursor_cache s) \<and>
    (rtype res \<in> {SUCCESS_SEQUENCE, SUCCESS_PARTIAL} \<longrightarrow>
       futures (snd (reader_step convert_pseudo make_error str_exn (Frame res) s)) f =
         [Result (maybe_profile (CursorRef (next_cursor s)) res)] \<and>
       next_cursor s \<notin> snd ` set (cursor_cache s) \<and>
       map_of (cursor_cache (snd (reader_step convert_pseudo make_error str_exn (Frame res) s)))
         (rtoken res) = Some (next_cursor s) \<and>
       (\<exists>c. cursors (snd (reader_step convert_pseudo make_error str_exn (Frame res) s))
               (next_cursor s) = Some c \<and>
            cquery c = q \<and> items c = data res \<and>
            error c = (if rtype res = SUCCESS_SEQUENCE then ErrFalse else ErrNone))) \<and>
    (rtype res = WAIT_COMPLETE \<longrightarrow>
       futures (snd (reader_step convert_pseudo make_error str_exn (Frame res) s)) f =
         [Result PyNone]) \<and>
    (\<forall>n. rtype res = OTHER_RESPONSE n \<longrightarrow>
       futures (snd (reader_step convert_pseudo make_error str_exn (Frame res) s)) f =
         [Exception (make_error res q)])"
proof -
  have f: "futures s f = []" "f < next_future s"
    using wf_pending [OF assms(1) pending_lookup [OF assms(3)]] by simp_all
  show ?thesis
  proof (cases "rtype res")
    case SUCCESS_ATOM
    with assms(4) obtain d ds where d: "data res = d # ds"
      by (cases "data res") auto
    from reader_body_atom [OF assms(2,3) SUCCESS_ATOM d, of convert_pseudo make_error]
    show ?thesis
      using SUCCESS_ATOM d f
      by (simp add: reader_step_def set_result_def delete_conv)
  next
    case SUCCESS_SEQUENCE
    then have ty: "rtype res \<in> {SUCCESS_SEQUENCE, SUCCESS_PARTIAL}" by simp
    have new: "next_cursor s \<notin> snd ` set (cursor_cache s)"
      using wf_cached [OF assms(1), of "next_cursor s"] by auto
    from reader_body_sequence [OF assms(2,3) ty, of convert_pseudo make_error]
    show ?thesis
      using SUCCESS_SEQUENCE f new
      by (simp add: reader_step_frame_ok delete_conv update_conv)
  next
    case SUCCESS_PARTIAL
    then have ty: "rtype res \<in> {SUCCESS_SEQUENCE, SUCCESS_PARTIAL}" by simp
    have new: "next_cursor s \<notin> snd ` set (cursor_cache s)"
      using wf_cached [OF assms(1), of "next_cursor s"] by auto
    from reader_body_sequence [OF assms(2,3) ty, of convert_pseudo make_error]
    show ?thesis
      using SUCCESS_PARTIAL f new
      by (simp add: reader_step_frame_ok delete_conv update_conv)
  next
    case WAIT_COMPLETE
    from reader_body_wait_complete [OF assms(2,3) WAIT_COMPLETE, of convert_pseudo make_error]
    show ?thesis
      using WAIT_COMPLETE f
      by (simp add: reader_step_def set_result_def delete_conv)
  next
    case (OTHER_RESPONSE n)
    from reader_body_error [OF assms(2,3) OTHER_RESPONSE, of convert_pseudo make_error]
    show ?thesis
      using OTHER_RESPONSE f
      by (simp add: reader_step_def set_exception_def delete_conv)
  qed
qed


theorem pending_request_resolved_witness:
  "wf sample \<and>
   map_of (cursor_cache sample) 1 = None \<and>
   map_of (user_queries sample) (Some 1) = Some (start_query 1, 0) \<and>
   map_of (cursor_cache sample) 2 = None \<and>
   map_of (user_queries sample) (Some 2) = Some (start_query 2, 1) \<and>
   fst (reader_step sample_convert sample_error sample_str
          (Frame ((frame 1 SUCCESS_ATOM [5])\<lparr>profile := Some 8\<rparr>)) sample) \<and>
   futures (snd (reader_step sample_convert sample_error sample_str
          (Frame ((frame 1 SUCCESS_ATOM [5])\<lparr>profile := Some 8\<rparr>)) sample)) 0 =
     [Result (Profiled (Datum 5) 8)] \<and>
   map_of (user_queries (snd (reader_step sample_convert sample_error sample_str
          (Frame ((frame 1 SUCCESS_ATOM [5])\<lparr>profile := Some 8\<rparr>)) sample))) (Some 1) = None \<and>
   futures (snd (reader_step sample_convert sample_error sample_str
          (Frame (frame 2 SUCCESS_PARTIAL [4, 6])) sample)) 1 = [Result (CursorRef 1)] \<and>
   map_of (cursor_cache (snd (reader_step sample_convert sample_error sample_str
          (Frame (frame 2 SUCCESS_PARTIAL [4, 6])) sample))) 2 = Some 1 \<and>
   (\<exists>c. cursors (snd (reader_step sample_convert sample_error sample_str
          (Frame (frame 2 SUCCESS_PARTIAL [4, 6])) sample)) 1 = Some c \<and>
        cquery c = start_query 2 \<and> items c = [4, 6] \<and> error c = ErrNone) \<and>
   futures (snd (reader_step sample_convert sample_error sample_str
          (Frame (frame 2 WAIT_COMPLETE [])) sample)) 1 = [Result PyNone] \<and>
   futures (snd (reader_step sample_convert sample_error sample_str
          (Frame (frame 2 (OTHER_RESPONSE 18) [3])) sample)) 1 = [Exception (ServerError [3])]"
proof -
  have l: "map_of (cursor_cache sample) 1 = None"
    "map_of (user_queries sample) (Some 1) = Some (start_query 1, 0)"
    "map_of (cursor_cache sample) 2 = None"
    "map_of (user_queries sample) (Some 2) = Some (start_query 2, 1)"
    "next_cursor sample = 1"
    by (simp_all add: sample_def)
  have a: "fst (reader_step sample_convert sample_error sample_str
          (Frame ((frame 1 SUCCESS_ATOM [5])\<lparr>profile := Some 8\<rparr>)) sample) \<and>
   futures (snd (reader_step sample_convert sample_error sample_str
          (Frame ((frame 1 SUCCESS_ATOM [5])\<lparr>profile := Some 8\<rparr>)) sample)) 0 =
     [Result (Profiled (Datum 5) 8)] \<and>
   map_of (user_queries (snd (reader_step sample_convert sample_error sample_str
          (Frame ((frame 1 SUCCESS_ATOM [5])\<lparr>profile := Some 8\<rparr>)) sample))) (Some 1) = None"
    using pending_request_resolved [OF wf_sample,
        of "(frame 1 SUCCESS_ATOM [5])\<lparr>profile := Some 8\<rparr>" "start_query 1" 0
           sample_convert sample_error sample_str] l
    by (simp add: frame_def maybe_profile_def sample_convert_def)
  have b: "futures (snd (reader_step sample_convert sample_error sample_str
          (Frame (frame 2 SUCCESS_PARTIAL [4, 6])) sample)) 1 = [Result (CursorRef 1)] \<and>
   map_of (cursor_cache (snd (reader_step sample_convert sample_error sample_str
          (Frame (frame 2 SUCCESS_PARTIAL [4, 6])) sample))) 2 = Some 1 \<and>
   (\<exists>c. cursors (snd (reader_step sample_convert sample_error sample_str
          (Frame (frame 2 SUCCESS_PARTIAL [4, 6])) sample)) 1 = Some c \<and>
        cquery c = start_query 2 \<and> items c = [4, 6] \<and> error c = ErrNone)"
    using pending_request_resolved [OF wf_sample,
        of "frame 2 SUCCESS_PARTIAL [4, 6]" "start_query 2" 1
           sample_convert sample_error sample_str] l
    by (simp add: frame_def maybe_profile_def)
  have c: "futures (snd (reader_step sample_convert sample_error sample_str
          (Frame (frame 2 WAIT_COMPLETE [])) sample)) 1 = [Result PyNone]"
    using pending_request_resolved [OF wf_sample,
        of "frame 2 WAIT_COMPLETE []" "start_query 2" 1
           sample_convert sample_error sample_str] l
    by (simp add: frame_def)
  have d: "futures (snd (reader_step sample_convert sample_error sample_str
          (Frame (frame 2 (OTHER_RESPONSE 18) [3])) sample)) 1 = [Exception (ServerError [3])]"
    using pending_request_resolved [OF wf_sample,
        of "frame 2 (OTHER_RESPONSE 18) [3]" "start_query 2" 1
           sample_convert sample_error sample_str] l
    by (simp add: frame_def sample_error_def)
  from wf_sample l a b c d show ?thesis by simp
qed

text \<open>
  A SUCCESS_ATOM frame with an empty data array for the request pending under the token 1:
  its future is not completed with a value but failed with the connection-closed error.
\<close>

theorem empty_atom_not_completed_with_value:
  "map_of (cursor_cache sample) (rtoken (frame 1 SUCCESS_ATOM [])) = None \<and>
   map_of (user_queries sample) (Some (rtoken (frame 1 SUCCESS_ATOM []))) = Some (start_query 1, 0) \<and>
   rtype (frame 1 SUCCESS_ATOM []) = SUCCESS_ATOM \<and>
   futures (snd (reader_step sample_convert sample_error sample_str
                   (Frame (frame 1 SUCCESS_ATOM [])) sample)) 0 =
     [Exception (RqlDriverError ''Connection is closed (%s).list index out of range'')]"
proof -
  have l: "map_of (cursor_cache sample) (rtoken (frame 1 SUCCESS_ATOM [])) = None"
    "map_of (user_queries sample) (Some (rtoken (frame 1 SUCCESS_ATOM []))) = Some (start_query 1, 0)"
    "rtype (frame 1 SUCCESS_ATOM []) = SUCCESS_ATOM" "data (frame 1 SUCCESS_ATOM []) = []"
    by (simp_all add: sample_def frame_def)
  have "reader_step sample_convert sample_error sample_str (Frame (frame 1 SUCCESS_ATOM [])) sample =
          (False, reader_except sample_str IndexError sample)"
    using reader_body_empty_atom [OF l, of sample_convert sample_error]
    by (simp add: reader_step_def)
  moreover have "sample_str IndexError = ''list index out of range''"
    by (simp add: sample_str_def)
  ultimately show ?thesis
    using reader_except_open [OF wf_sample sample_sets(3), of sample_str IndexError] sample_sets l
    by simp
qed

lemma wf_futures_inj:
  assumes "wf s"
    and "map_of (user_queries s) k1 = Some (q1, f1)"
    and "map_of (user_queries s) k2 = Some (q2, f2)"
    and "k1 \<noteq> k2"
  shows "f1 \<noteq> f2"
proof
  assume eq: "f1 = f2"
  have "distinct (map (\<lambda>entry. snd (snd entry)) (user_queries s))"
    using assms(1) by (simp add: wf_def pending_futures_def)
  then have inj: "inj_on (\<lambda>entry. snd (snd entry)) (set (user_queries s))"
    by (simp add: distinct_map)
  have m1: "(k1, (q1, f1)) \<in> set (user_queries s)" and m2: "(k2, (q2, f2)) \<in> set (user_queries s)"
    using assms(2,3) by (auto dest: map_of_SomeD)
  have "(k1, (q1, f1)) = (k2, (q2, f2))"
    using inj_onD [OF inj _ m1 m2] eq by simp
  with assms(4) show False by simp
qed

lemma wf_cursors_inj:
  assumes "wf s"
    and "map_of (cursor_cache s) t1 = Some c1"
    and "map_of (cursor_cache s) t2 = Some c2"
    and "t1 \<noteq> t2"
  shows "c1 \<noteq> c2"
proof
  assume eq: "c1 = c2"
  have inj: "inj_on snd (set (cursor_cache s))"
    using assms(1) by (simp add: wf_def distinct_map)
  have m1: "(t1, c1) \<in> set (cursor_cache s)" and m2: "(t2, c2) \<in> set (cursor_cache s)"
    using assms(2,3) by (auto dest: map_of_SomeD)
  have "(t1, c1) = (t2, c2)"
    using inj_onD [OF inj _ m1 m2] eq by simp
  with assms(4) show False by simp
qed

lemma extend_frame [simp]:
  "user_queries (extend cid res s) = user_queries s"
  "cursor_cache (extend cid res s) = cursor_cache s"
  "closing (extend cid res s) = closing s"
  "stream_closed (extend cid res s) = stream_closed s"
  "written (extend cid res s) = written s"
  "next_cursor (extend cid res s) = next_cursor s"
  by (simp_all add: extend_def split: option.splits)

lemma extend_cursors_other:
  "cid' \<noteq> cid \<Longrightarrow> cursors (extend cid res s) cid' = cursors s cid'"
  by (simp add: extend_def signal_cursors split: option.splits)

lemma extend_futures_other:
  "g < next_future s \<Longrightarrow> (\<And>c. cursors s cid = Some c \<Longrightarrow> new_response c \<noteq> g) \<Longrightarrow>
   futures (extend cid res s) g = futures s g"
  by (auto simp add: extend_def signal_futures Cursor_extend_def split: option.splits)

text \<open>
  C3, as amended. Let a frame bear the token \<open>t1\<close>, which has a cursor or a pending
  request, in a well-formed state, and let \<open>t2\<close> be another token. Unless the frame is a
  SUCCESS_ATOM response with an empty data array for a pending request of an instance
  that is not closing, one pass of the reader, its handler included, leaves the entries of
  both tables under \<open>t2\<close>, the future of the request pending under \<open>t2\<close> and the cursor
  registered under \<open>t2\<close> as they were.
\<close>

theorem other_token_untouched:
  assumes "wf s" and "t2 \<noteq> rtoken res"
    and "map_of (cursor_cache s) (rtoken res) \<noteq> None \<or>
         map_of (user_queries s) (Some (rtoken res)) \<noteq> None"
    and "closing s \<or> map_of (cursor_cache s) (rtoken res) \<noteq> None \<or>
         rtype res \<noteq> SUCCESS_ATOM \<or> data res \<noteq> []"
  shows
    "map_of (user_queries (snd (reader_step convert_pseudo make_error str_exn (Frame res) s)))
       (Some t2) = map_of (user_queries s) (Some t2) \<and>
     map_of (cursor_cache (snd (reader_step convert_pseudo make_error str_exn (Frame res) s))) t2 =
       map_of (cursor_cache s) t2 \<and>
     (\<forall>q2 f2. map_of (user_queries s) (Some t2) = Some (q2, f2) \<longrightarrow>
        futures (snd (reader_step convert_pseudo make_error str_exn (Frame res) s)) f2 =
          futures s f2) \<and>
     (\<forall>c2. map_of (cursor_cache s) t2 = Some c2 \<longrightarrow>
        cursors (snd (reader_step convert_pseudo make_error str_exn (Frame res) s)) c2 =
          cursors s c2)"
proof -
  let ?s' = "snd (reader_step convert_pseudo make_error str_exn (Frame res) s)"
  have fut: "f2 < next_future s" "f2 \<in> set (pending_futures s)"
    if "map_of (user_queries s) (Some t2) = Some (q2, f2)" for q2 f2
    using wf_pending [OF assms(1) pending_lookup [OF that]] pending_lookup [OF that] by simp_all
  have cur: "c2 < next_cursor s" if "map_of (cursor_cache s) t2 = Some c2" for c2
    using wf_cached [OF assms(1) cached_lookup [OF that]] by simp
  show ?thesis
  proof (cases "map_of (cursor_cache s) (rtoken res)")
    case (Some cid)
    have step: "?s' = extend cid res s"
      using Some by (simp add: reader_step_def reader_body_def)
    obtain c where c: "cursors s cid = Some c" "new_response c \<notin> set (pending_futures s)"
      using wf_cached [OF assms(1) cached_lookup [OF Some]] by auto
    have "futures ?s' f2 = futures s f2"
      if "map_of (user_queries s) (Some t2) = Some (q2, f2)" for q2 f2
      unfolding step using fut [OF that] c by (intro extend_futures_other) auto
    moreover have "cursors ?s' c2 = cursors s c2" if "map_of (cursor_cache s) t2 = Some c2" for c2
      unfolding step
      using wf_cursors_inj [OF assms(1) that Some assms(2)] by (rule extend_cursors_other)
    ultimately show ?thesis using step by simp
  next
    case None
    with assms(3) obtain q f where p: "map_of (user_queries s) (Some (rtoken res)) = Some (q, f)"
      by auto
    have ne: "f2 \<noteq> f" if "map_of (user_queries s) (Some t2) = Some (q2, f2)" for q2 f2
      using wf_futures_inj [OF assms(1) that p] assms(2) by simp
    show ?thesis
    proof (cases "rtype res")
      case SUCCESS_ATOM
      show ?thesis
      proof (cases "data res")
        case Nil
        with assms(4) None SUCCESS_ATOM have "closing s" by simp
        then have "?s' = s"
          using reader_body_empty_atom [OF None p SUCCESS_ATOM Nil, of convert_pseudo make_error]
          by (simp add: reader_step_def reader_except_closing)
        then show ?thesis by simp
      next
        case (Cons d ds)
        from reader_body_atom [OF None p SUCCESS_ATOM Cons, of convert_pseudo make_error]
        show ?thesis
          using assms(2) ne by (auto simp add: reader_step_def set_result_def delete_conv)
      qed
    next
      case SUCCESS_SEQUENCE
      then have ty: "rtype res \<in> {SUCCESS_SEQUENCE, SUCCESS_PARTIAL}" by simp
      from reader_body_sequence [OF None p ty, of convert_pseudo make_error]
      show ?thesis
        using assms(2) ne fut cur
        by (auto simp add: reader_step_frame_ok delete_conv update_conv)
    next
      case SUCCESS_PARTIAL
      then have ty: "rtype res \<in> {SUCCESS_SEQUENCE, SUCCESS_PARTIAL}" by simp
      from reader_body_sequence [OF None p ty, of convert_pseudo make_error]
      show ?thesis
        using assms(2) ne fut cur
        by (auto simp add: reader_step_frame_ok delete_conv update_conv)
    next
      case WAIT_COMPLETE
      from reader_body_wait_complete [OF None p WAIT_COMPLETE, of convert_pseudo make_error]
      show ?thesis
        using assms(2) ne by (auto simp add: reader_step_def set_result_def delete_conv)
    next
      case (OTHER_RESPONSE n)
      from reader_body_error [OF None p OTHER_RESPONSE, of convert_pseudo make_error]
      show ?thesis
        using assms(2) ne by (auto simp add: reader_step_def set_exception_def delete_conv)
    qed
  qed
qed


theorem other_token_untouched_witness:
  "wf sample \<and> 2 \<noteq> rtoken (frame 1 SUCCESS_ATOM [5]) \<and> 3 \<noteq> rtoken (frame 1 SUCCESS_ATOM [5]) \<and>
   map_of (user_queries sample) (Some (rtoken (frame 1 SUCCESS_ATOM [5]))) \<noteq> None \<and>
   data (frame 1 SUCCESS_ATOM [5]) \<noteq> [] \<and>
   map_of (user_queries sample) (Some 2) = Some (start_query 2, 1) \<and>
   map_of (cursor_cache sample) 3 = Some 0 \<and>
   map_of (user_queries (snd (reader_step sample_convert sample_error sample_str
                                (Frame (frame 1 SUCCESS_ATOM [5])) sample))) (Some 2) =
     Some (start_query 2, 1) \<and>
   futures (snd (reader_step sample_convert sample_error sample_str
                   (Frame (frame 1 SUCCESS_ATOM [5])) sample)) 1 = futures sample 1 \<and>
   map_of (cursor_cache (snd (reader_step sample_convert sample_error sample_str
                                (Frame (frame 1 SUCCESS_ATOM [5])) sample))) 3 = Some 0 \<and>
   cursors (snd (reader_step sample_convert sample_error sample_str
                   (Frame (frame 1 SUCCESS_ATOM [5])) sample)) 0 = cursors sample 0"
proof -
  have l: "2 \<noteq> rtoken (frame 1 SUCCESS_ATOM [5])" "3 \<noteq> rtoken (frame 1 SUCCESS_ATOM [5])"
    "map_of (user_queries sample) (Some (rtoken (frame 1 SUCCESS_ATOM [5]))) \<noteq> None"
    "data (frame 1 SUCCESS_ATOM [5]) \<noteq> []"
    "map_of (user_queries sample) (Some 2) = Some (start_query 2, 1)"
    "map_of (cursor_cache sample) 3 = Some 0"
    by (simp_all add: sample_def frame_def)
  have a: "map_of (user_queries (snd (reader_step sample_convert sample_error sample_str
                                (Frame (frame 1 SUCCESS_ATOM [5])) sample))) (Some 2) =
     Some (start_query 2, 1) \<and>
   futures (snd (reader_step sample_convert sample_error sample_str
                   (Frame (frame 1 SUCCESS_ATOM [5])) sample)) 1 = futures sample 1"
    using other_token_untouched [OF wf_sample l(1), of sample_convert sample_error sample_str] l
    by simp
  have b: "map_of (cursor_cache (snd (reader_step sample_convert sample_error sample_str
                                (Frame (frame 1 SUCCESS_ATOM [5])) sample))) 3 = Some 0 \<and>
   cursors (snd (reader_step sample_convert sample_error sample_str
                   (Frame (frame 1 SUCCESS_ATOM [5])) sample)) 0 = cursors sample 0"
    using other_token_untouched [OF wf_sample l(2), of sample_convert sample_error sample_str] l
    by simp
  from wf_sample l a b show ?thesis by simp
qed

text \<open>
  The same frame, for the token 1, also resolves the future pending under the token 2 and
  removes that entry from the table.
\<close>

theorem empty_atom_resolves_other_token:
  "rtoken (frame 1 SUCCESS_ATOM []) \<noteq> 2 \<and>
   map_of (user_queries sample) (Some (rtoken (frame 1 SUCCESS_ATOM []))) = Some (start_query 1, 0) \<and>
   map_of (user_queries sample) (Some 2) = Some (start_query 2, 1) \<and>
   futures sample 1 = [] \<and>
   futures (snd (reader_step sample_convert sample_error sample_str
                   (Frame (frame 1 SUCCESS_ATOM [])) sample)) 1 =
     [Exception (RqlDriverError ''Connection is closed (%s).list index out of range'')] \<and>
   map_of (user_queries (snd (reader_step sample_convert sample_error sample_str
                                (Frame (frame 1 SUCCESS_ATOM [])) sample))) (Some 2) = None"
proof -
  have l: "map_of (cursor_cache sample) (rtoken (frame 1 SUCCESS_ATOM [])) = None"
    "map_of (user_queries sample) (Some (rtoken (frame 1 SUCCESS_ATOM []))) = Some (start_query 1, 0)"
    "rtype (frame 1 SUCCESS_ATOM []) = SUCCESS_ATOM" "data (frame 1 SUCCESS_ATOM []) = []"
    and m: "rtoken (frame 1 SUCCESS_ATOM []) \<noteq> 2"
    "map_of (user_queries sample) (Some 2) = Some (start_query 2, 1)"
    "futures sample 1 = []"
    by (simp_all add: sample_def frame_def)
  have "reader_step sample_convert sample_error sample_str (Frame (frame 1 SUCCESS_ATOM [])) sample =
          (False, reader_except sample_str IndexError sample)"
    using reader_body_empty_atom [OF l, of sample_convert sample_error]
    by (simp add: reader_step_def)
  moreover have "sample_str IndexError = ''list index out of range''"
    by (simp add: sample_str_def)
  ultimately show ?thesis
    using reader_except_open [OF wf_sample sample_sets(3), of sample_str IndexError] sample_sets l m
    by simp
qed

lemma split_first: "\<exists>ws. split sep xs = takeWhile (\<lambda>c. c \<noteq> sep) xs # ws"
  by (induction xs) (auto split: list.splits)

lemma handshake_message_first_line:
  "handshake_message decodeUTF response = Inr (first_line (decodeUTF (butlast response)))"
proof -
  obtain ws where "split (CHR 0x0A) (decodeUTF (butlast response)) =
      takeWhile (\<lambda>c. c \<noteq> CHR 0x0A) (decodeUTF (butlast response)) # ws"
    using split_first [of "CHR 0x0A" "decodeUTF (butlast response)"] by auto
  then show ?thesis by (simp add: handshake_message_def first_line_def)
qed

lemma connect_handshake_read:
  assumes "with_absolute_timeout (connect_deadline timeout s) stream_connect = Some (Inr u)"
    and "\<not> stream_closed s"
    and "with_absolute_timeout (connect_deadline timeout s) read_until = Some (Inr response)"
  shows "connect decodeUTF str_exn host port timeout stream_connect read_until s =
     (if first_line (decodeUTF (butlast response)) \<noteq> ''SUCCESS''
      then (Some (Inl (RqlDriverError (''Server dropped connection with message: '' @ [CHR 0x22]
                         @ first_line (decodeUTF (butlast response)) @ [CHR 0x22]))),
            snd (close str_exn False None False None (s\<lparr>handshakes := Suc (handshakes s)\<rparr>)))
      else (Some (Inr ParentConnection),
            s\<lparr>handshakes := Suc (handshakes s), readers := Suc (readers s)\<rparr>))"
  using assms
  by (simp add: connect_def connect_deadline_def handshake_message_first_line Let_def)

text \<open>
  C7. Once the handshake reply has been read: if the text before the first newline is not
  \<^verbatim>\<open>SUCCESS\<close>, \<^verbatim>\<open>connect\<close> fails with a driver error whose message quotes that text,
  the stream is closed and no reader is started; if it is \<^verbatim>\<open>SUCCESS\<close>, \<^verbatim>\<open>connect\<close>
  starts one reader, leaves the stream open and returns the parent connection.
\<close>

theorem connect_handshake_outcome:
  assumes "with_absolute_timeout (connect_deadline timeout s) stream_connect = Some (Inr u)"
    and "\<not> stream_closed s"
    and "with_absolute_timeout (connect_deadline timeout s) read_until = Some (Inr response)"
  shows
    "(first_line (decodeUTF (butlast response)) \<noteq> ''SUCCESS'' \<longrightarrow>
        fst (connect decodeUTF str_exn host port timeout stream_connect read_until s) =
          Some (Inl (RqlDriverError (''Server dropped connection with message: '' @ [CHR 0x22]
                       @ first_line (decodeUTF (butlast response)) @ [CHR 0x22]))) \<and>
        stream_closed (snd (connect decodeUTF str_exn host port timeout stream_connect read_until s)) \<and>
        readers (snd (connect decodeUTF str_exn host port timeout stream_connect read_until s)) =
          readers s) \<and>
     (first_line (decodeUTF (butlast response)) = ''SUCCESS'' \<longrightarrow>
        fst (connect decodeUTF str_exn host port timeout stream_connect read_until s) =
          Some (Inr ParentConnection) \<and>
        \<not> stream_closed (snd (connect decodeUTF str_exn host port timeout stream_connect read_until s)) \<and>
        readers (snd (connect decodeUTF str_exn host port timeout stream_connect read_until s)) =
          Suc (readers s))"
  using assms(2) connect_handshake_read [OF assms, of decodeUTF str_exn host port]
  by (simp add: close_no_wait stream_close_def)

lemma first_line_samples:
  "first_line (ascii (butlast bad_reply)) = ''ERROR: bad proto''"
  "first_line (ascii (butlast good_reply)) = ''SUCCESS''"
  by (simp_all add: first_line_def ascii_def bad_reply_def good_reply_def)

theorem connect_handshake_outcome_witness:
  "with_absolute_timeout (connect_deadline (Some 20) (init 0 :: nat connection_instance))
     (Some (1, Inr ())) = Some (Inr ()) \<and>
   \<not> stream_closed (init 0 :: nat connection_instance) \<and>
   with_absolute_timeout (connect_deadline (Some 20) (init 0 :: nat connection_instance))
     (Some (2, Inr bad_reply)) = Some (Inr bad_reply) \<and>
   with_absolute_timeout (connect_deadline (Some 20) (init 0 :: nat connection_instance))
     (Some (2, Inr good_reply)) = Some (Inr good_reply) \<and>
   first_line (ascii (butlast bad_reply)) \<noteq> ''SUCCESS'' \<and>
   fst (connect ascii sample_str ''localhost'' 28015 (Some 20) (Some (1, Inr ()))
          (Some (2, Inr bad_reply)) (init 0)) =
     Some (Inl (RqlDriverError
       (''Server dropped connection with message: '' @ [CHR 0x22] @ ''ERROR: bad proto'' @ [CHR 0x22]))) \<and>
   stream_closed (snd (connect ascii sample_str ''localhost'' 28015 (Some 20) (Some (1, Inr ()))
          (Some (2, Inr bad_reply)) (init 0))) \<and>
   readers (snd (connect ascii sample_str ''localhost'' 28015 (Some 20) (Some (1, Inr ()))
          (Some (2, Inr bad_reply)) (init 0))) = 0 \<and>
   first_line (ascii (butlast good_reply)) = ''SUCCESS'' \<and>
   fst (connect ascii sample_str ''localhost'' 28015 (Some 20) (Some (1, Inr ()))
          (Some (2, Inr good_reply)) (init 0)) = Some (Inr ParentConnection) \<and>
   \<not> stream_closed (snd (connect ascii sample_str ''localhost'' 28015 (Some 20) (Some (1, Inr ()))
          (Some (2, Inr good_reply)) (init 0))) \<and>
   readers (snd (connect ascii sample_str ''localhost'' 28015 (Some 20) (Some (1, Inr ()))
          (Some (2, Inr good_reply)) (init 0))) = 1"
proof -
  have c: "with_absolute_timeout (connect_deadline (Some 20) (init 0 :: nat connection_instance))
     (Some (1, Inr ())) = Some (Inr ())"
    and b: "with_absolute_timeout (connect_deadline (Some 20) (init 0 :: nat connection_instance))
     (Some (2, Inr bad_reply)) = Some (Inr bad_reply)"
    and g: "with_absolute_timeout (connect_deadline (Some 20) (init 0 :: nat connection_instance))
     (Some (2, Inr good_reply)) = Some (Inr good_reply)"
    and o: "\<not> stream_closed (init 0 :: nat connection_instance)"
    and r: "readers (init 0 :: nat connection_instance) = 0"
    by (simp_all add: with_absolute_timeout_def with_timeout_def connect_deadline_def init_def)
  have 1: "fst (connect ascii sample_str ''localhost'' 28015 (Some 20) (Some (1, Inr ()))
          (Some (2, Inr bad_reply)) (init 0)) =
     Some (Inl (RqlDriverError
       (''Server dropped connection with message: '' @ [CHR 0x22] @ ''ERROR: bad proto'' @ [CHR 0x22]))) \<and>
   stream_closed (snd (connect ascii sample_str ''localhost'' 28015 (Some 20) (Some (1, Inr ()))
          (Some (2, Inr bad_reply)) (init 0))) \<and>
   readers (snd (connect ascii sample_str ''localhost'' 28015 (Some 20) (Some (1, Inr ()))
          (Some (2, Inr bad_reply)) (init 0))) = 0"
    using connect_handshake_outcome [OF c o b, of ascii sample_str "''localhost''" 28015]
      first_line_samples r
    by simp
  have 2: "fst (connect ascii sample_str ''localhost'' 28015 (Some 20) (Some (1, Inr ()))
          (Some (2, Inr good_reply)) (init 0)) = Some (Inr ParentConnection) \<and>
   \<not> stream_closed (snd (connect ascii sample_str ''localhost'' 28015 (Some 20) (Some (1, Inr ()))
          (Some (2, Inr good_reply)) (init 0))) \<and>
   readers (snd (connect ascii sample_str ''localhost'' 28015 (Some 20) (Some (1, Inr ()))
          (Some (2, Inr good_reply)) (init 0))) = 1"
    using connect_handshake_outcome [OF c o g, of ascii sample_str "''localhost''" 28015]
      first_line_samples r
    by simp
  from c o b g first_line_samples 1 2 show ?thesis by simp
qed

lemma wf_handshakes [simp]: "wf (s\<lparr>handshakes := n\<rparr>) = wf s"
  by (auto simp add: wf_def pending_futures_def split: option.splits)

text \<open>
  C6, as amended. When the first line of the handshake reply is not \<^verbatim>\<open>SUCCESS\<close>,
  \<^verbatim>\<open>connect\<close> runs the normal teardown, \<^verbatim>\<open>close(False, None)\<close>, and leaves the state
  that call leaves: the instance is marked closing, every pending request of a well-formed
  state is failed with the driver error \<^verbatim>\<open>Connection is closed.\<close>, every cursor of the
  cursor table gets that terminal error, both tables are emptied, nothing is written and
  the stream is closed.
\<close>

theorem handshake_failure_runs_close:
  assumes "with_absolute_timeout (connect_deadline timeout s) stream_connect = Some (Inr u)"
    and "\<not> stream_closed s"
    and "with_absolute_timeout (connect_deadline timeout s) read_until = Some (Inr response)"
    and "first_line (decodeUTF (butlast response)) \<noteq> ''SUCCESS''"
  shows
    "snd (close str_exn False None False None (s\<lparr>handshakes := Suc (handshakes s)\<rparr>)) =
       snd (connect decodeUTF str_exn host port timeout stream_connect read_until s) \<and>
     closing (snd (connect decodeUTF str_exn host port timeout stream_connect read_until s)) \<and>
     stream_closed (snd (connect decodeUTF str_exn host port timeout stream_connect read_until s)) \<and>
     user_queries (snd (connect decodeUTF str_exn host port timeout stream_connect read_until s)) = [] \<and>
     cursor_cache (snd (connect decodeUTF str_exn host port timeout stream_connect read_until s)) = [] \<and>
     written (snd (connect decodeUTF str_exn host port timeout stream_connect read_until s)) =
       written s \<and>
     (wf s \<longrightarrow>
        (\<forall>f \<in> set (pending_futures s).
           futures (snd (connect decodeUTF str_exn host port timeout stream_connect read_until s)) f =
             [Exception (RqlDriverError ''Connection is closed.'')]) \<and>
        (\<forall>cid \<in> snd ` set (cursor_cache s).
           \<exists>c. cursors (snd (connect decodeUTF str_exn host port timeout stream_connect read_until s))
                 cid = Some c \<and>
               error c = Failed (TerminalError ''Connection is closed.'')))"
proof -
  let ?s1 = "s\<lparr>handshakes := Suc (handshakes s)\<rparr>"
  have m: "err_message str_exn False None = ''Connection is closed.''"
    by (simp add: err_message_def)
  have c: "snd (connect decodeUTF str_exn host port timeout stream_connect read_until s) =
             stream_close (teardown str_exn False None ?s1)"
    using connect_handshake_read [OF assms(1-3), of decodeUTF str_exn host port] assms(4)
    by (simp add: close_no_wait)
  have "futures (stream_close (teardown str_exn False None ?s1)) f =
          [Exception (RqlDriverError ''Connection is closed.'')]"
    if "wf s" "f \<in> set (pending_futures s)" for f
  proof -
    have "wf ?s1" "f \<in> set (pending_futures ?s1)"
      using that by (simp_all add: pending_futures_def)
    from teardown_futures [OF this, of str_exn False None] m show ?thesis
      by (simp add: stream_close_def)
  qed
  moreover have "\<exists>c. cursors (stream_close (teardown str_exn False None ?s1)) cid = Some c \<and>
               error c = Failed (TerminalError ''Connection is closed.'')"
    if "wf s" "cid \<in> snd ` set (cursor_cache s)" for cid
  proof -
    have "wf ?s1" "cid \<in> snd ` set (cursor_cache ?s1)"
      using that by simp_all
    from teardown_cursors [OF this, of str_exn False None] m show ?thesis
      by (auto simp add: stream_close_def)
  qed
  ultimately show ?thesis
    unfolding c by (simp add: close_no_wait stream_close_def)
qed

lemma early_request_eq:
  "early_request = (init 0)\<lparr>written := [start_query 1], futures := (\<lambda>_. []), next_future := 1,
      user_queries := [(Some 1, (start_query 1, 0))]\<rparr>"
  by (simp add: early_request_def run_query_def Future_def init_def start_query_def Let_def
      fun_upd_idem)

lemma early_request_facts:
  "wf early_request" "\<not> stream_closed early_request" "\<not> closing early_request"
  "clock early_request = 0" "set (pending_futures early_request) = {0}"
  "futures early_request 0 = []"
  by (simp_all add: early_request_eq wf_def pending_futures_def init_def)

theorem handshake_failure_runs_close_witness:
  "with_absolute_timeout (connect_deadline (Some 20) early_request) (Some (1, Inr ())) = Some (Inr ()) \<and>
   \<not> stream_closed early_request \<and>
   with_absolute_timeout (connect_deadline (Some 20) early_request) (Some (2, Inr bad_reply)) =
     Some (Inr bad_reply) \<and>
   first_line (ascii (butlast bad_reply)) \<noteq> ''SUCCESS'' \<and>
   wf early_request \<and> set (pending_futures early_request) = {0} \<and>
   closing (snd (connect ascii sample_str ''localhost'' 28015 (Some 20) (Some (1, Inr ()))
                   (Some (2, Inr bad_reply)) early_request)) \<and>
   stream_closed (snd (connect ascii sample_str ''localhost'' 28015 (Some 20) (Some (1, Inr ()))
                   (Some (2, Inr bad_reply)) early_request)) \<and>
   user_queries (snd (connect ascii sample_str ''localhost'' 28015 (Some 20) (Some (1, Inr ()))
                   (Some (2, Inr bad_reply)) early_request)) = [] \<and>
   futures (snd (connect ascii sample_str ''localhost'' 28015 (Some 20) (Some (1, Inr ()))
                   (Some (2, Inr bad_reply)) early_request)) 0 =
     [Exception (RqlDriverError ''Connection is closed.'')]"
proof -
  have c: "with_absolute_timeout (connect_deadline (Some 20) early_request) (Some (1, Inr ())) =
             Some (Inr ())"
    and b: "with_absolute_timeout (connect_deadline (Some 20) early_request)
              (Some (2, Inr bad_reply)) = Some (Inr bad_reply)"
    by (simp_all add: with_absolute_timeout_def with_timeout_def connect_deadline_def
        early_request_facts)
  have n: "first_line (ascii (butlast bad_reply)) \<noteq> ''SUCCESS''"
    by (simp add: first_line_samples)
  show ?thesis
    using handshake_failure_runs_close [where decodeUTF = ascii and str_exn = sample_str
          and host = "''localhost''" and port = 28015, OF c early_request_facts(2) b n]
      c b n early_request_facts
    by simp
qed

text \<open>
  The failure path of the handshake is the teardown: a request submitted before the reply
  came is failed with the connection-closed error, the instance is marked closing and the
  table is emptied.
\<close>

theorem handshake_failure_notifies_waiter:
  "\<not> closing early_request \<and> futures early_request 0 = [] \<and>
   user_queries early_request = [(Some 1, (start_query 1, 0))] \<and>
   closing (snd (connect ascii sample_str ''localhost'' 28015 (Some 20) (Some (1, Inr ()))
                   (Some (2, Inr bad_reply)) early_request)) \<and>
   futures (snd (connect ascii sample_str ''localhost'' 28015 (Some 20) (Some (1, Inr ()))
                   (Some (2, Inr bad_reply)) early_request)) 0 =
     [Exception (RqlDriverError ''Connection is closed.'')] \<and>
   user_queries (snd (connect ascii sample_str ''localhost'' 28015 (Some 20) (Some (1, Inr ()))
                   (Some (2, Inr bad_reply)) early_request)) = []"
proof -
  have c: "with_absolute_timeout (connect_deadline (Some 20) early_request) (Some (1, Inr ())) =
             Some (Inr ())"
    and b: "with_absolute_timeout (connect_deadline (Some 20) early_request)
              (Some (2, Inr bad_reply)) = Some (Inr bad_reply)"
    by (simp_all add: with_absolute_timeout_def with_timeout_def connect_deadline_def
        early_request_facts)
  have u: "user_queries early_request = [(Some 1, (start_query 1, 0))]"
    by (simp add: early_request_eq)
  have m: "err_message sample_str False None = ''Connection is closed.''"
    by (simp add: err_message_def)
  have f0: "0 \<in> set (pending_futures (early_request\<lparr>handshakes := Suc (handshakes early_request)\<rparr>))"
    by (simp add: pending_futures_def u)
  have w: "wf (early_request\<lparr>handshakes := Suc (handshakes early_request)\<rparr>)"
    by (simp add: early_request_facts)
  have "snd (connect ascii sample_str ''localhost'' 28015 (Some 20) (Some (1, Inr ()))
               (Some (2, Inr bad_reply)) early_request) =
        stream_close (teardown sample_str False None
          (early_request\<lparr>handshakes := Suc (handshakes early_request)\<rparr>))"
    using connect_handshake_read [OF c early_request_facts(2) b, of ascii sample_str "''localhost''" 28015]
    by (simp add: first_line_samples close_no_wait)
  then show ?thesis
    using teardown_futures [OF w f0, of sample_str False None] m u early_request_facts
    by (simp add: stream_close_def)
qed

text \<open>
  C8, as amended. Without a deadline the wrapper is the plain await: the operation's value
  or exception as it is, and no return if the operation never completes. With a deadline
  it yields the operation's value if the operation completes with one before the deadline,
  \<^verbatim>\<open>RqlTimeoutError\<close> if the operation has not completed before the deadline, and the
  operation's own exception if it fails before the deadline, except that Tornado's
  \<^verbatim>\<open>gen.TimeoutError\<close> raised by the operation itself is turned into
  \<^verbatim>\<open>RqlTimeoutError\<close> as well.
\<close>

theorem with_absolute_timeout_contract:
  "await generator = with_absolute_timeout None generator \<and>
   (generator = None \<longrightarrow> with_absolute_timeout None generator = None) \<and>
   (\<forall>t r. generator = Some (t, r) \<longrightarrow> with_absolute_timeout None generator = Some r) \<and>
   (\<forall>t v. generator = Some (t, Inr v) \<and> t < d \<longrightarrow>
      with_absolute_timeout (Some d) generator = Some (Inr v)) \<and>
   (generator = None \<or> (\<exists>t r. generator = Some (t, r) \<and> \<not> t < d) \<longrightarrow>
      with_absolute_timeout (Some d) generator = Some (Inl RqlTimeoutError)) \<and>
   (\<forall>t e. generator = Some (t, Inl e) \<and> t < d \<and> e \<noteq> GenTimeoutError \<longrightarrow>
      with_absolute_timeout (Some d) generator = Some (Inl e)) \<and>
   (\<forall>t. generator = Some (t, Inl GenTimeoutError) \<and> t < d \<longrightarrow>
      with_absolute_timeout (Some d) generator = Some (Inl RqlTimeoutError))"
proof -
  have 1: "await generator = with_absolute_timeout None generator"
    by (simp add: with_absolute_timeout_def)
  have 2: "with_absolute_timeout (Some d) generator = Some (Inr v)"
    if "generator = Some (t, Inr v)" "t < d" for t v
    using that by (simp add: with_absolute_timeout_def with_timeout_def)
  have 3: "with_absolute_timeout (Some d) generator = Some (Inl RqlTimeoutError)"
    if "generator = None \<or> (\<exists>t r. generator = Some (t, r) \<and> \<not> t < d)"
    using that by (auto simp add: with_absolute_timeout_def with_timeout_def)
  have 4: "with_absolute_timeout (Some d) generator = Some (Inl e)"
    if "generator = Some (t, Inl e)" "t < d" "e \<noteq> GenTimeoutError" for t e
    using that by (cases e) (simp_all add: with_absolute_timeout_def with_timeout_def)
  have 5: "with_absolute_timeout (Some d) generator = Some (Inl RqlTimeoutError)"
    if "generator = Some (t, Inl GenTimeoutError)" "t < d" for t
    using that by (simp add: with_absolute_timeout_def with_timeout_def)
  have 0: "with_absolute_timeout None generator = map_option snd generator"
    by (simp add: with_absolute_timeout_def await_def)
  from 1 2 3 4 5 show ?thesis unfolding 0 by auto
qed

theorem with_absolute_timeout_contract_witness:
  "with_absolute_timeout None (Some (3, Inr 5) :: (nat, nat) operation) = Some (Inr 5) \<and>
   with_absolute_timeout None (Some (3, Inl StreamClosedError) :: (nat, nat) operation) =
     Some (Inl StreamClosedError) \<and>
   with_absolute_timeout None (None :: (nat, nat) operation) = None \<and>
   (3 :: real) < 10 \<and>
   with_absolute_timeout (Some 10) (Some (3, Inr 5) :: (nat, nat) operation) = Some (Inr 5) \<and>
   \<not> (12 :: real) < 10 \<and>
   with_absolute_timeout (Some 10) (Some (12, Inr 5) :: (nat, nat) operation) =
     Some (Inl RqlTimeoutError) \<and>
   with_absolute_timeout (Some 10) (None :: (nat, nat) operation) = Some (Inl RqlTimeoutError) \<and>
   StreamClosedError \<noteq> (GenTimeoutError :: nat exn) \<and>
   with_absolute_timeout (Some 10) (Some (3, Inl StreamClosedError) :: (nat, nat) operation) =
     Some (Inl StreamClosedError) \<and>
   with_absolute_timeout (Some 10) (Some (3, Inl GenTimeoutError) :: (nat, nat) operation) =
     Some (Inl RqlTimeoutError)"
proof -
  have a: "with_absolute_timeout None (Some (3, Inr 5) :: (nat, nat) operation) = Some (Inr 5)"
    using with_absolute_timeout_contract [of "Some (3, Inr 5) :: (nat, nat) operation" 10] by simp
  have b: "with_absolute_timeout None (Some (3, Inl StreamClosedError) :: (nat, nat) operation) =
     Some (Inl StreamClosedError)"
    using with_absolute_timeout_contract [of "Some (3, Inl StreamClosedError) :: (nat, nat) operation" 10]
    by simp
  have c: "with_absolute_timeout None (None :: (nat, nat) operation) = None"
    using with_absolute_timeout_contract [of "None :: (nat, nat) operation" 10] by simp
  have d: "with_absolute_timeout (Some 10) (Some (3, Inr 5) :: (nat, nat) operation) = Some (Inr 5)"
    using with_absolute_timeout_contract [of "Some (3, Inr 5) :: (nat, nat) operation" 10] by simp
  have e: "with_absolute_timeout (Some 10) (Some (12, Inr 5) :: (nat, nat) operation) =
     Some (Inl RqlTimeoutError)"
    using with_absolute_timeout_contract [of "Some (12, Inr 5) :: (nat, nat) operation" 10] by simp
  have f: "with_absolute_timeout (Some 10) (None :: (nat, nat) operation) = Some (Inl RqlTimeoutError)"
    using with_absolute_timeout_contract [of "None :: (nat, nat) operation" 10] by simp
  have g: "with_absolute_timeout (Some 10) (Some (3, Inl StreamClosedError) :: (nat, nat) operation) =
     Some (Inl StreamClosedError)"
    using with_absolute_timeout_contract [of "Some (3, Inl StreamClosedError) :: (nat, nat) operation" 10]
    by simp
  have h: "with_absolute_timeout (Some 10) (Some (3, Inl GenTimeoutError) :: (nat, nat) operation) =
     Some (Inl RqlTimeoutError)"
    using with_absolute_timeout_contract [of "Some (3, Inl GenTimeoutError) :: (nat, nat) operation" 10]
    by simp
  from a b c d e f g h show ?thesis by simp
qed

text \<open>
  An operation that itself fails with Tornado's \<^verbatim>\<open>gen.TimeoutError\<close> before the
  deadline: the wrapper does not hand that exception on.
\<close>

theorem operation_timeout_error_not_propagated:
  "(3 :: real) < 10 \<and>
   with_absolute_timeout (Some 10) (Some (3, Inl GenTimeoutError) :: (nat, nat) operation) \<noteq>
     Some (Inl GenTimeoutError)"
  by (simp add: with_absolute_timeout_def with_timeout_def)

lemma try_next_frame [simp]:
  "next_future (try_next cv cid rf d s) = next_future s"
  "clock (try_next cv cid rf d s) = clock s"
  "user_queries (try_next cv cid rf d s) = user_queries s"
  "cursor_cache (try_next cv cid rf d s) = cursor_cache s"
  by (simp_all add: try_next_def set_exception_def set_result_def add_future_def add_timeout_def
      split: option.splits list.splits cursor_error.splits)

lemma try_next_futures_other:
  "g \<noteq> rf \<Longrightarrow> futures (try_next cv cid rf d s) g = futures s g"
  by (simp add: try_next_def set_exception_def set_result_def add_future_def add_timeout_def
      split: option.splits list.splits cursor_error.splits)

lemma try_next_done:
  "futures s rf \<noteq> [] \<Longrightarrow> try_next cv cid rf d s = s"
  by (simp add: try_next_def running_def split: option.splits)

lemma try_next_length:
  "futures s rf = [] \<Longrightarrow> length (futures (try_next cv cid rf d s) rf) \<le> 1"
  by (simp add: try_next_def set_exception_def set_result_def add_future_def add_timeout_def
      split: option.splits list.splits cursor_error.splits)

lemma try_next_new_response:
  "cursors (try_next cv cid rf d s) cid' = Some c' \<Longrightarrow>
   \<exists>c. cursors s cid' = Some c \<and> new_response c = new_response c'"
  by (auto simp add: try_next_def set_exception_def set_result_def add_future_def add_timeout_def
      split: option.splits list.splits cursor_error.splits if_splits)

lemma once_try_next: "once rf s \<Longrightarrow> once rf (try_next cv cid rf' d s)"
proof -
  assume o: "once rf s"
  have "length (futures (try_next cv cid rf' d s) rf) \<le> 1"
  proof (cases "rf = rf'")
    case False
    with o show ?thesis by (simp add: try_next_futures_other once_def)
  next
    case True
    show ?thesis
    proof (cases "futures s rf = []")
      case True
      with \<open>rf = rf'\<close> show ?thesis using try_next_length [of s rf cv cid d] by simp
    next
      case False
      with \<open>rf = rf'\<close> o show ?thesis by (simp add: try_next_done once_def)
    qed
  qed
  moreover have "new_response c' \<noteq> rf" if "cursors (try_next cv cid rf' d s) cid' = Some c'" for cid' c'
    using try_next_new_response [OF that] o by (auto simp add: once_def)
  ultimately show ?thesis using o by (simp add: once_def)
qed

lemma once_ready [simp]: "once rf (s\<lparr>ready := r\<rparr>) = once rf s"
  by (simp add: once_def)

lemma once_run_ready: "once rf s \<Longrightarrow> once rf (run_ready cv s)"
proof (cases "ready s")
  case Nil
  assume "once rf s"
  with Nil show ?thesis by (simp add: run_ready_def)
next
  case (Cons cb cbs)
  assume o: "once rf s"
  obtain cid rf' d where cb: "cb = TryNext cid rf' d" by (cases cb)
  have "once rf (try_next cv cid rf' d (s\<lparr>ready := cbs\<rparr>))"
    using o by (intro once_try_next) simp
  with Cons cb show ?thesis by (simp add: run_ready_def)
qed

lemma once_advance: "once rf s \<Longrightarrow> once rf (advance t s)"
  by (simp add: once_def advance_def Let_def)

lemma once_signal: "once rf s \<Longrightarrow> once rf (signal cid s)"
  by (auto simp add: once_def signal_futures signal_cursors signal_next_future
      split: option.splits if_splits)

lemma once_extend: "once rf s \<Longrightarrow> once rf (extend cid res s)"
proof -
  assume o: "once rf s"
  show ?thesis
  proof (cases "cursors s cid")
    case None
    with o show ?thesis by (simp add: extend_def)
  next
    case (Some c)
    have "once rf (s\<lparr>cursors := (cursors s)(cid \<mapsto> Cursor_extend res c)\<rparr>)"
      using o Some by (auto simp add: once_def Cursor_extend_def)
    then show ?thesis using Some by (simp add: extend_def once_signal)
  qed
qed

lemma once_Cursor_error: "once rf s \<Longrightarrow> once rf (Cursor_error m cid s)"
proof -
  assume o: "once rf s"
  show ?thesis
  proof (cases "cursors s cid")
    case None
    with o show ?thesis by (simp add: Cursor_error_def)
  next
    case (Some c)
    have "once rf (s\<lparr>cursors := (cursors s)(cid \<mapsto> c\<lparr>error := Failed (TerminalError m)\<rparr>)\<rparr>)"
      using o Some by (auto simp add: once_def)
    then show ?thesis using Some by (simp add: Cursor_error_def once_signal)
  qed
qed

lemma once_maybe_fetch_batch: "once rf s \<Longrightarrow> once rf (maybe_fetch_batch low cid s)"
  by (auto simp add: once_def maybe_fetch_batch_def split: option.splits)

lemma once_Future: "once rf s \<Longrightarrow> once rf (snd (Future s))"
  by (auto simp add: once_def Future_def)

lemma get_next_unfold:
  "get_next cv low cid timeout s =
     (next_future s,
      try_next cv cid (next_future s)
        (case timeout of None \<Rightarrow> None | Some t \<Rightarrow> Some (clock s + t))
        (maybe_fetch_batch low cid (snd (Future s))))"
  by (simp add: get_next_def Future_def Let_def split: option.splits)

lemma once_get_next: "once rf s \<Longrightarrow> once rf (snd (get_next cv low cid timeout s))"
  by (simp add: get_next_unfold once_try_next once_maybe_fetch_batch once_Future)

lemma once_cursor_step: "once rf s \<Longrightarrow> once rf (cursor_step cv low ev s)"
  by (cases ev)
    (simp_all add: once_extend once_Cursor_error once_run_ready once_advance once_get_next)

lemma once_run_events: "once rf s \<Longrightarrow> once rf (run_events cv low evs s)"
  unfolding run_events_def
  by (induction evs arbitrary: s) (simp_all add: once_cursor_step)

lemma once_fresh:
  assumes "\<And>cid c. cursors s cid = Some c \<Longrightarrow> new_response c < next_future s"
  shows "once (next_future s) (snd (get_next cv low cid timeout s))"
proof -
  have "once (next_future s) (snd (Future s))"
    using assms by (fastforce simp add: once_def Future_def)
  then show ?thesis
    by (simp add: get_next_unfold once_try_next once_maybe_fetch_batch)
qed


lemma try_next_empty:
  assumes "cursors u cid = Some c" "items c = []" "futures u rf = []"
  shows "error c = Failed e \<Longrightarrow> futures (try_next cv cid rf d u) rf = [Exception e]"
    and "error c = ErrFalse \<Longrightarrow> futures (try_next cv cid rf d u) rf = [Exception StopIteration]"
    and "error c = ErrNone \<Longrightarrow> d = Some t \<Longrightarrow> t < clock u \<Longrightarrow>
         futures (try_next cv cid rf d u) rf = [Exception RqlTimeoutError]"
    and "error c = ErrNone \<Longrightarrow> (\<And>t. d = Some t \<Longrightarrow> \<not> t < clock u) \<Longrightarrow>
         futures u (new_response c) = [] \<Longrightarrow>
         futures (try_next cv cid rf d u) rf = [] \<and>
         (new_response c, TryNext cid rf None) \<in> set (future_callbacks (try_next cv cid rf d u)) \<and>
         (\<forall>t. d = Some t \<longrightarrow> (t, TryNext cid rf (Some t)) \<in> set (timeouts (try_next cv cid rf d u)))"
  using assms
  by (auto simp add: try_next_def running_def set_exception_def resolve_def add_future_def
      add_timeout_def split: option.splits)

lemma try_next_row:
  assumes "cursors u cid = Some c" "items c = x # xs" "futures u rf = []"
  shows "futures (try_next cv cid rf d u) rf = [Result (Datum (cv x (cquery c)))]"
    and "\<exists>c'. cursors (try_next cv cid rf d u) cid = Some c' \<and> items c' = xs"
  using assms
  by (simp_all add: try_next_def running_def set_result_def resolve_def)

lemma extend_wakes:
  assumes "cursors u cid = Some c"
    and "(new_response c, cb) \<in> set (future_callbacks u)"
  shows "cb \<in> set (ready (extend cid res u))"
  using assms
  by (force simp add: extend_def signal_def set_result_def resolve_def Future_def Cursor_extend_def)

lemma advance_fires:
  "(d, cb) \<in> set (timeouts u) \<Longrightarrow> d \<le> t \<Longrightarrow> cb \<in> set (ready (advance t u))"
  by (force simp add: advance_def Let_def)

lemma maybe_fetch_batch_cursor:
  "cursors s cid = Some c \<Longrightarrow>
   \<exists>c'. cursors (maybe_fetch_batch low cid s) cid = Some c' \<and> items c' = items c \<and>
        error c' = error c \<and> new_response c' = new_response c \<and> cquery c' = cquery c"
  by (simp add: maybe_fetch_batch_def)

lemma maybe_fetch_batch_frame [simp]:
  "futures (maybe_fetch_batch low cid s) = futures s"
  "clock (maybe_fetch_batch low cid s) = clock s"
  "next_future (maybe_fetch_batch low cid s) = next_future s"
  by (simp_all add: maybe_fetch_batch_def split: option.splits)

lemma get_next_empty:
  assumes "cursors s cid = Some c" "items c = []"
  shows "fst (get_next cv low cid timeout s) = next_future s"
    and "error c = Failed e \<Longrightarrow>
         futures (snd (get_next cv low cid timeout s)) (next_future s) = [Exception e]"
    and "error c = ErrFalse \<Longrightarrow>
         futures (snd (get_next cv low cid timeout s)) (next_future s) = [Exception StopIteration]"
    and "error c = ErrNone \<Longrightarrow> timeout = Some t \<Longrightarrow> t < 0 \<Longrightarrow>
         futures (snd (get_next cv low cid timeout s)) (next_future s) = [Exception RqlTimeoutError]"
    and "error c = ErrNone \<Longrightarrow> (\<And>t. timeout = Some t \<Longrightarrow> 0 \<le> t) \<Longrightarrow>
         new_response c < next_future s \<Longrightarrow> futures s (new_response c) = [] \<Longrightarrow>
         futures (snd (get_next cv low cid timeout s)) (next_future s) = [] \<and>
         (new_response c, TryNext cid (next_future s) None) \<in>
            set (future_callbacks (snd (get_next cv low cid timeout s))) \<and>
         (\<forall>t. timeout = Some t \<longrightarrow>
            (clock s + t, TryNext cid (next_future s) (Some (clock s + t))) \<in>
               set (timeouts (snd (get_next cv low cid timeout s))))"
proof -
  let ?u = "maybe_fetch_batch low cid (snd (Future s))"
  let ?d = "case timeout of None \<Rightarrow> None | Some t \<Rightarrow> Some (clock s + t)"
  have "cursors (snd (Future s)) cid = Some c"
    using assms(1) by (simp add: Future_def)
  from maybe_fetch_batch_cursor [OF this, of low] assms(2)
  obtain c' where c': "cursors ?u cid = Some c'" "items c' = []" "error c' = error c"
    "new_response c' = new_response c"
    by auto
  have u: "futures ?u (next_future s) = []" "clock ?u = clock s"
    "new_response c < next_future s \<Longrightarrow> futures ?u (new_response c) = futures s (new_response c)"
    by (simp_all add: Future_def)
  show "fst (get_next cv low cid timeout s) = next_future s"
    by (simp add: get_next_unfold)
  show "futures (snd (get_next cv low cid timeout s)) (next_future s) = [Exception e]"
    if "error c = Failed e"
    using try_next_empty(1) [OF c'(1,2) u(1), of e cv ?d] that c'(3) by (simp add: get_next_unfold)
  show "futures (snd (get_next cv low cid timeout s)) (next_future s) = [Exception StopIteration]"
    if "error c = ErrFalse"
    using try_next_empty(2) [OF c'(1,2) u(1), of cv ?d] that c'(3) by (simp add: get_next_unfold)
  show "futures (snd (get_next cv low cid timeout s)) (next_future s) = [Exception RqlTimeoutError]"
    if "error c = ErrNone" "timeout = Some t" "t < 0"
    using try_next_empty(3) [OF c'(1,2) u(1), of ?d "clock s + t" cv] that c'(3) u(2)
    by (simp add: get_next_unfold)
  show "futures (snd (get_next cv low cid timeout s)) (next_future s) = [] \<and>
         (new_response c, TryNext cid (next_future s) None) \<in>
            set (future_callbacks (snd (get_next cv low cid timeout s))) \<and>
         (\<forall>t. timeout = Some t \<longrightarrow>
            (clock s + t, TryNext cid (next_future s) (Some (clock s + t))) \<in>
               set (timeouts (snd (get_next cv low cid timeout s))))"
    if "error c = ErrNone" "\<And>t. timeout = Some t \<Longrightarrow> 0 \<le> t"
      "new_response c < next_future s" "futures s (new_response c) = []"
  proof -
    have "\<not> t < clock ?u" if "?d = Some t" for t
      using that \<open>\<And>t. timeout = Some t \<Longrightarrow> 0 \<le> t\<close> u(2) by (auto split: option.splits)
    moreover have "futures ?u (new_response c') = []"
      using u(3) that(3,4) c'(4) by simp
    ultimately show ?thesis
      using try_next_empty(4) [OF c'(1,2) u(1), of ?d cv] that(1) c'(3,4)
      by (auto simp add: get_next_unfold)
  qed
qed

text \<open>
  C4. \<^verbatim>\<open>_get_next\<close> on a cursor whose buffer is empty returns a new result future, and:
  if the cursor has a terminal error the future is failed with it; if the cursor is
  exhausted without an error the future is failed with \<^verbatim>\<open>StopIteration\<close>; if the
  cursor is open and the deadline, which is the clock at the call plus the timeout, has
  already elapsed, the future is failed with \<^verbatim>\<open>RqlTimeoutError\<close>; otherwise the
  future is left pending, a wake is registered on the cursor's \<^verbatim>\<open>new_response\<close> and,
  if there is a timeout, a timer at that deadline. New data makes the wake due and the
  clock reaching the deadline makes the timer due. A wake or timer that runs while the
  future is pending and the buffer is empty fails the future with the terminal error,
  with \<^verbatim>\<open>StopIteration\<close>, or, for a timer whose deadline has elapsed, with
  \<^verbatim>\<open>RqlTimeoutError\<close>, as above; otherwise it registers the wake again, and the timer
  with the same deadline; with a row in the buffer it completes the future with the
  decoded row. Whatever events follow, in whatever order, the future has at most one
  resolution.
\<close>

theorem get_next_on_empty_buffer:
  assumes "cursors s cid = Some c" and "items c = []"
    and "\<forall>cid' c'. cursors s cid' = Some c' \<longrightarrow> new_response c' < next_future s"
    and "futures s (new_response c) = []"
  shows
    "fst (get_next cv low cid timeout s) = next_future s \<and>
     (\<forall>e. error c = Failed e \<longrightarrow>
        futures (snd (get_next cv low cid timeout s)) (next_future s) = [Exception e]) \<and>
     (error c = ErrFalse \<longrightarrow>
        futures (snd (get_next cv low cid timeout s)) (next_future s) = [Exception StopIteration]) \<and>
     (error c = ErrNone \<longrightarrow>
        (\<forall>t. timeout = Some t \<and> t < 0 \<longrightarrow>
           futures (snd (get_next cv low cid timeout s)) (next_future s) =
             [Exception RqlTimeoutError]) \<and>
        ((\<forall>t. timeout = Some t \<longrightarrow> 0 \<le> t) \<longrightarrow>
           futures (snd (get_next cv low cid timeout s)) (next_future s) = [] \<and>
           (new_response c, TryNext cid (next_future s) None) \<in>
              set (future_callbacks (snd (get_next cv low cid timeout s))) \<and>
           (\<forall>t. timeout = Some t \<longrightarrow>
              (clock s + t, TryNext cid (next_future s) (Some (clock s + t))) \<in>
                 set (timeouts (snd (get_next cv low cid timeout s)))))) \<and>
     (\<forall>u c' cb res. cursors u cid = Some c' \<and> (new_response c', cb) \<in> set (future_callbacks u) \<longrightarrow>
        cb \<in> set (ready (extend cid res u))) \<and>
     (\<forall>u d cb t. (d, cb) \<in> set (timeouts u) \<and> d \<le> t \<longrightarrow> cb \<in> set (ready (advance t u))) \<and>
     (\<forall>u c' rf d. cursors u cid = Some c' \<and> items c' = [] \<and> futures u rf = [] \<longrightarrow>
        (\<forall>e. error c' = Failed e \<longrightarrow>
           futures (run_callback cv (TryNext cid rf d) u) rf = [Exception e]) \<and>
        (error c' = ErrFalse \<longrightarrow>
           futures (run_callback cv (TryNext cid rf d) u) rf = [Exception StopIteration]) \<and>
        (error c' = ErrNone \<longrightarrow>
           (\<forall>t. d = Some t \<and> t < clock u \<longrightarrow>
              futures (run_callback cv (TryNext cid rf d) u) rf = [Exception RqlTimeoutError]) \<and>
           ((\<forall>t. d = Some t \<longrightarrow> \<not> t < clock u) \<and> futures u (new_response c') = [] \<longrightarrow>
              futures (run_callback cv (TryNext cid rf d) u) rf = [] \<and>
              (new_response c', TryNext cid rf None) \<in>
                 set (future_callbacks (run_callback cv (TryNext cid rf d) u)) \<and>
              (\<forall>t. d = Some t \<longrightarrow>
                 (t, TryNext cid rf (Some t)) \<in>
                    set (timeouts (run_callback cv (TryNext cid rf d) u)))))) \<and>
     (\<forall>u c' rf d x xs. cursors u cid = Some c' \<and> items c' = x # xs \<and> futures u rf = [] \<longrightarrow>
        futures (run_callback cv (TryNext cid rf d) u) rf = [Result (Datum (cv x (cquery c')))]) \<and>
     (\<forall>evs. length (futures (run_events cv low evs (snd (get_next cv low cid timeout s)))
                  (next_future s)) \<le> 1)"
proof -
  have al: "new_response c' < next_future s" if "cursors s cid' = Some c'" for cid' c'
    using assms(3) that by blast
  note g = get_next_empty [where cv = cv and low = low and timeout = timeout, OF assms(1,2)]
  have 1: "fst (get_next cv low cid timeout s) = next_future s" by (rule g(1))
  have 2: "\<forall>e. error c = Failed e \<longrightarrow>
        futures (snd (get_next cv low cid timeout s)) (next_future s) = [Exception e]"
    using g(2) by blast
  have 3: "error c = ErrFalse \<longrightarrow>
        futures (snd (get_next cv low cid timeout s)) (next_future s) = [Exception StopIteration]"
    using g(3) by blast
  have 4: "error c = ErrNone \<longrightarrow>
        (\<forall>t. timeout = Some t \<and> t < 0 \<longrightarrow>
           futures (snd (get_next cv low cid timeout s)) (next_future s) =
             [Exception RqlTimeoutError]) \<and>
        ((\<forall>t. timeout = Some t \<longrightarrow> 0 \<le> t) \<longrightarrow>
           futures (snd (get_next cv low cid timeout s)) (next_future s) = [] \<and>
           (new_response c, TryNext cid (next_future s) None) \<in>
              set (future_callbacks (snd (get_next cv low cid timeout s))) \<and>
           (\<forall>t. timeout = Some t \<longrightarrow>
              (clock s + t, TryNext cid (next_future s) (Some (clock s + t))) \<in>
                 set (timeouts (snd (get_next cv low cid timeout s)))))"
  proof (intro impI conjI allI)
    fix t assume "error c = ErrNone" "timeout = Some t \<and> t < 0"
    then show "futures (snd (get_next cv low cid timeout s)) (next_future s) =
             [Exception RqlTimeoutError]"
      using g(4) by blast
  next
    assume e: "error c = ErrNone" and t: "\<forall>t. timeout = Some t \<longrightarrow> 0 \<le> t"
    have *: "futures (snd (get_next cv low cid timeout s)) (next_future s) = [] \<and>
         (new_response c, TryNext cid (next_future s) None) \<in>
            set (future_callbacks (snd (get_next cv low cid timeout s))) \<and>
         (\<forall>t. timeout = Some t \<longrightarrow>
            (clock s + t, TryNext cid (next_future s) (Some (clock s + t))) \<in>
               set (timeouts (snd (get_next cv low cid timeout s))))"
      using g(5) [OF e _ al [OF assms(1)] assms(4)] t by blast
    from * show "futures (snd (get_next cv low cid timeout s)) (next_future s) = []" by blast
    from * show "(new_response c, TryNext cid (next_future s) None) \<in>
            set (future_callbacks (snd (get_next cv low cid timeout s)))" by blast
    fix t assume "timeout = Some t"
    with * show "(clock s + t, TryNext cid (next_future s) (Some (clock s + t))) \<in>
               set (timeouts (snd (get_next cv low cid timeout s)))" by blast
  qed
  have 5: "\<forall>u c' cb res. cursors u cid = Some c' \<and> (new_response c', cb) \<in> set (future_callbacks u) \<longrightarrow>
        cb \<in> set (ready (extend cid res u))"
    using extend_wakes by blast
  have 6: "\<forall>u d cb t. (d, cb) \<in> set (timeouts u) \<and> d \<le> t \<longrightarrow> cb \<in> set (ready (advance t u))"
    for u :: "'a connection_instance"
    using advance_fires by blast
  have 7: "\<forall>u c' rf d. cursors u cid = Some c' \<and> items c' = [] \<and> futures u rf = [] \<longrightarrow>
        (\<forall>e. error c' = Failed e \<longrightarrow>
           futures (run_callback cv (TryNext cid rf d) u) rf = [Exception e]) \<and>
        (error c' = ErrFalse \<longrightarrow>
           futures (run_callback cv (TryNext cid rf d) u) rf = [Exception StopIteration]) \<and>
        (error c' = ErrNone \<longrightarrow>
           (\<forall>t. d = Some t \<and> t < clock u \<longrightarrow>
              futures (run_callback cv (TryNext cid rf d) u) rf = [Exception RqlTimeoutError]) \<and>
           ((\<forall>t. d = Some t \<longrightarrow> \<not> t < clock u) \<and> futures u (new_response c') = [] \<longrightarrow>
              futures (run_callback cv (TryNext cid rf d) u) rf = [] \<and>
              (new_response c', TryNext cid rf None) \<in>
                 set (future_callbacks (run_callback cv (TryNext cid rf d) u)) \<and>
              (\<forall>t. d = Some t \<longrightarrow>
                 (t, TryNext cid rf (Some t)) \<in>
                    set (timeouts (run_callback cv (TryNext cid rf d) u)))))"
  proof (intro allI impI, elim conjE)
    fix u :: "'a connection_instance" and c' rf d
    assume h: "cursors u cid = Some c'" "items c' = []" "futures u rf = []"
    note t = try_next_empty [where cv = cv and d = d, OF h]
    show "(\<forall>e. error c' = Failed e \<longrightarrow>
           futures (run_callback cv (TryNext cid rf d) u) rf = [Exception e]) \<and>
        (error c' = ErrFalse \<longrightarrow>
           futures (run_callback cv (TryNext cid rf d) u) rf = [Exception StopIteration]) \<and>
        (error c' = ErrNone \<longrightarrow>
           (\<forall>t. d = Some t \<and> t < clock u \<longrightarrow>
              futures (run_callback cv (TryNext cid rf d) u) rf = [Exception RqlTimeoutError]) \<and>
           ((\<forall>t. d = Some t \<longrightarrow> \<not> t < clock u) \<and> futures u (new_response c') = [] \<longrightarrow>
              futures (run_callback cv (TryNext cid rf d) u) rf = [] \<and>
              (new_response c', TryNext cid rf None) \<in>
                 set (future_callbacks (run_callback cv (TryNext cid rf d) u)) \<and>
              (\<forall>t. d = Some t \<longrightarrow>
                 (t, TryNext cid rf (Some t)) \<in>
                    set (timeouts (run_callback cv (TryNext cid rf d) u)))))"
      using t(1) t(2) t(3) t(4) by (simp (no_asm_simp)) blast
  qed
  have 8: "\<forall>u c' rf d x xs. cursors u cid = Some c' \<and> items c' = x # xs \<and> futures u rf = [] \<longrightarrow>
        futures (run_callback cv (TryNext cid rf d) u) rf = [Result (Datum (cv x (cquery c')))]"
  proof (intro allI impI, elim conjE)
    fix u :: "'a connection_instance" and c' rf d x xs
    assume "cursors u cid = Some c'" "items c' = x # xs" "futures u rf = []"
    then show "futures (run_callback cv (TryNext cid rf d) u) rf =
                 [Result (Datum (cv x (cquery c')))]"
      by (simp add: try_next_row(1))
  qed
  have 9: "\<forall>evs. length (futures (run_events cv low evs (snd (get_next cv low cid timeout s)))
                  (next_future s)) \<le> 1"
  proof
    fix evs
    have "once (next_future s) (snd (get_next cv low cid timeout s))"
      using al by (rule once_fresh)
    then have "once (next_future s) (run_events cv low evs (snd (get_next cv low cid timeout s)))"
      by (rule once_run_events)
    then show "length (futures (run_events cv low evs (snd (get_next cv low cid timeout s)))
                  (next_future s)) \<le> 1"
      by (simp add: once_def)
  qed
  from 1 2 3 4 5 6 7 8 9 show ?thesis by (intro conjI)
qed


lemma idle_cursor_at: "cursors (idle flag) 0 = Some (idle_cursor flag)"
  by (simp add: idle_def)

lemma idle_items: "items (idle_cursor flag) = []"
  by (simp add: idle_cursor_def)

lemma idle_alloc:
  "\<forall>cid' c'. cursors (idle flag) cid' = Some c' \<longrightarrow> new_response c' < next_future (idle flag)"
  by (auto simp add: idle_def idle_cursor_def split: if_splits)

lemma idle_pending: "futures (idle flag) (new_response (idle_cursor flag)) = []"
  by (simp add: idle_def)

lemma idle_facts:
  "next_future (idle flag) = 1" "clock (idle flag) = 100"
  "new_response (idle_cursor flag) = 0" "error (idle_cursor flag) = flag"
  by (simp_all add: idle_def idle_cursor_def)

lemma race_run:
  "futures (run_events sample_convert never_low
              [NewData 0 (frame 3 SUCCESS_PARTIAL [42]), RunReady, Tick 200, RunReady]
              (snd (get_next sample_convert never_low 0 (Some 5) (idle ErrNone)))) 1 =
     [Result (Datum 42)]"
  by (simp add: run_events_def get_next_unfold Future_def maybe_fetch_batch_def never_low_def
      try_next_def running_def add_future_def add_timeout_def extend_def signal_def
      Cursor_extend_def set_result_def set_exception_def resolve_def run_ready_def advance_def
      idle_def idle_cursor_def frame_def sample_convert_def Let_def)

theorem get_next_on_empty_buffer_witness:
  "cursors (idle ErrNone) 0 = Some (idle_cursor ErrNone) \<and> items (idle_cursor ErrNone) = [] \<and>
   futures (idle ErrNone) (new_response (idle_cursor ErrNone)) = [] \<and>
   fst (get_next sample_convert never_low 0 (Some 5) (idle ErrNone)) = 1 \<and>
   futures (snd (get_next sample_convert never_low 0 (Some 5) (idle ErrNone))) 1 = [] \<and>
   (0, TryNext 0 1 None) \<in>
     set (future_callbacks (snd (get_next sample_convert never_low 0 (Some 5) (idle ErrNone)))) \<and>
   (105, TryNext 0 1 (Some 105)) \<in>
     set (timeouts (snd (get_next sample_convert never_low 0 (Some 5) (idle ErrNone)))) \<and>
   futures (snd (get_next sample_convert never_low 0 (Some (- 1)) (idle ErrNone))) 1 =
     [Exception RqlTimeoutError] \<and>
   futures (snd (get_next sample_convert never_low 0 (Some 5) (idle ErrFalse))) 1 =
     [Exception StopIteration] \<and>
   futures (snd (get_next sample_convert never_low 0 (Some 5)
                   (idle (Failed (TerminalError ''Connection is closed.''))))) 1 =
     [Exception (TerminalError ''Connection is closed.'')] \<and>
   length (futures (run_events sample_convert never_low
              [NewData 0 (frame 3 SUCCESS_PARTIAL [42]), RunReady, Tick 200, RunReady]
              (snd (get_next sample_convert never_low 0 (Some 5) (idle ErrNone)))) 1) \<le> 1 \<and>
   futures (run_events sample_convert never_low
              [NewData 0 (frame 3 SUCCESS_PARTIAL [42]), RunReady, Tick 200, RunReady]
              (snd (get_next sample_convert never_low 0 (Some 5) (idle ErrNone)))) 1 =
     [Result (Datum 42)]"
proof -
  note A = get_next_on_empty_buffer [where cv = sample_convert and low = never_low
      and timeout = "Some 5",
      OF idle_cursor_at [of "ErrNone"] idle_items [of "ErrNone"]
         idle_alloc [of "ErrNone"] idle_pending [of "ErrNone"]]
  note B = get_next_on_empty_buffer [where cv = sample_convert and low = never_low
      and timeout = "Some (- 1)",
      OF idle_cursor_at [of "ErrNone"] idle_items [of "ErrNone"]
         idle_alloc [of "ErrNone"] idle_pending [of "ErrNone"]]
  note C = get_next_on_empty_buffer [where cv = sample_convert and low = never_low
      and timeout = "Some 5",
      OF idle_cursor_at [of "ErrFalse"] idle_items [of "ErrFalse"]
         idle_alloc [of "ErrFalse"] idle_pending [of "ErrFalse"]]
  note D = get_next_on_empty_buffer [where cv = sample_convert and low = never_low
      and timeout = "Some 5",
      OF idle_cursor_at [of "Failed (TerminalError ''Connection is closed.'')"] idle_items [of "Failed (TerminalError ''Connection is closed.'')"]
         idle_alloc [of "Failed (TerminalError ''Connection is closed.'')"] idle_pending [of "Failed (TerminalError ''Connection is closed.'')"]]
  have a1: "fst (get_next sample_convert never_low 0 (Some 5) (idle ErrNone)) = 1"
    using A [THEN conjunct1] by (simp add: idle_facts)
  have a2: "futures (snd (get_next sample_convert never_low 0 (Some 5) (idle ErrNone))) 1 = [] \<and>
   (0, TryNext 0 1 None) \<in>
     set (future_callbacks (snd (get_next sample_convert never_low 0 (Some 5) (idle ErrNone)))) \<and>
   (105, TryNext 0 1 (Some 105)) \<in>
     set (timeouts (snd (get_next sample_convert never_low 0 (Some 5) (idle ErrNone))))"
    using A [THEN conjunct2, THEN conjunct2, THEN conjunct2, THEN conjunct1]
    by (simp add: idle_facts)
  have a3: "length (futures (run_events sample_convert never_low
              [NewData 0 (frame 3 SUCCESS_PARTIAL [42]), RunReady, Tick 200, RunReady]
              (snd (get_next sample_convert never_low 0 (Some 5) (idle ErrNone)))) 1) \<le> 1"
    using A [THEN conjunct2, THEN conjunct2, THEN conjunct2, THEN conjunct2, THEN conjunct2,
      THEN conjunct2, THEN conjunct2, THEN conjunct2, THEN spec,
      of "[NewData 0 (frame 3 SUCCESS_PARTIAL [42]), RunReady, Tick 200, RunReady]"]
    by (simp add: idle_facts)
  have b: "futures (snd (get_next sample_convert never_low 0 (Some (- 1)) (idle ErrNone))) 1 =
     [Exception RqlTimeoutError]"
    using B [THEN conjunct2, THEN conjunct2, THEN conjunct2, THEN conjunct1]
    by (simp add: idle_facts)
  have c: "futures (snd (get_next sample_convert never_low 0 (Some 5) (idle ErrFalse))) 1 =
     [Exception StopIteration]"
    using C [THEN conjunct2, THEN conjunct2, THEN conjunct1] by (simp add: idle_facts)
  have d: "futures (snd (get_next sample_convert never_low 0 (Some 5)
                   (idle (Failed (TerminalError ''Connection is closed.''))))) 1 =
     [Exception (TerminalError ''Connection is closed.'')]"
    using D [THEN conjunct2, THEN conjunct1] by (simp add: idle_facts)
  from a1 a2 a3 b c d race_run idle_cursor_at [of ErrNone] idle_items [of ErrNone]
    idle_pending [of ErrNone]
  show ?thesis by simp
qed









subsection \<open>Well-formedness is kept\<close>

lemma wf_init: "wf (init now)"
  by (simp add: wf_def init_def pending_futures_def)

lemma wf_empty_tables: "user_queries s = [] \<Longrightarrow> cursor_cache s = [] \<Longrightarrow> wf s"
  by (simp add: wf_def pending_futures_def)

lemma wf_teardown: "wf (teardown str_exn e h s)"
  by (rule wf_empty_tables) simp_all

lemma wf_close: "wf (snd (close str_exn nw token e h s))"
proof (cases "nw \<and> \<not> stream_closed s")
  case True
  then show ?thesis
    by (simp add: close_wait_open wf_def pending_futures_def)
next
  case False
  then show ?thesis
    by (cases nw) (simp_all add: close_no_wait close_wait_closed wf_teardown stream_close_def
        wf_empty_tables)
qed

lemma wf_reader_except: "wf s \<Longrightarrow> wf (reader_except str_exn e s)"
  by (simp add: reader_except_def wf_close)

lemma delete_filter: "AList.delete k al = filter (\<lambda>p. fst p \<noteq> k) al"
  by (induction al) auto

lemma update_fresh: "map_of al k = None \<Longrightarrow> AList.update k v al = al @ [(k, v)]"
  by (induction al) (auto split: if_splits)

lemma set_update_subset: "set (AList.update k v al) \<subseteq> insert (k, v) (set al)"
  by (induction al) auto

lemma wf_resolve_pending:
  assumes "wf s" and "map_of (user_queries s) k = Some (q, f)"
  shows "wf ((resolve f r s)\<lparr>user_queries := AList.delete k (user_queries s)\<rparr>)"
proof -
  let ?uq = "filter (\<lambda>p. fst p \<noteq> k) (user_queries s)"
  let ?s' = "(resolve f r s)\<lparr>user_queries := AList.delete k (user_queries s)\<rparr>"
  have pf: "pending_futures ?s' = map (\<lambda>entry. snd (snd entry)) ?uq"
    by (simp add: pending_futures_def delete_filter)
  have sub: "set (pending_futures ?s') \<subseteq> set (pending_futures s)"
    unfolding pf by (auto simp add: pending_futures_def)
  have nf: "f \<notin> set (pending_futures ?s')"
  proof
    assume "f \<in> set (pending_futures ?s')"
    then obtain k' q' where m: "(k', (q', f)) \<in> set (user_queries s)" "k' \<noteq> k"
      unfolding pf by auto
    have "distinct (map fst (user_queries s))" using assms(1) by (simp add: wf_def)
    with m(1) have "map_of (user_queries s) k' = Some (q', f)" by simp
    from wf_futures_inj [OF assms(1) this assms(2) m(2)] show False by simp
  qed
  have d1: "distinct (map fst (user_queries ?s'))"
    using assms(1) by (simp add: wf_def delete_filter distinct_map_filter)
  have d2: "distinct (pending_futures ?s')"
    unfolding pf using assms(1) by (simp add: wf_def pending_futures_def distinct_map_filter)
  have f3: "futures ?s' g = [] \<and> g < next_future ?s'" if "g \<in> set (pending_futures ?s')" for g
  proof -
    have "g \<noteq> f" using that nf by auto
    moreover have "g \<in> set (pending_futures s)" using that sub by auto
    ultimately show ?thesis using assms(1) by (simp add: wf_def)
  qed
  have c4: "cid < next_cursor ?s' \<and>
        (case cursors ?s' cid of None \<Rightarrow> False
         | Some c \<Rightarrow> new_response c < next_future ?s' \<and> new_response c \<notin> set (pending_futures ?s'))"
    if "cid \<in> set (map snd (cursor_cache ?s'))" for cid
  proof -
    have "cid \<in> snd ` set (cursor_cache s)" using that by simp
    from wf_cached [OF assms(1) this] sub show ?thesis by auto
  qed
  have d5: "distinct (map fst (cursor_cache ?s'))" "distinct (map snd (cursor_cache ?s'))"
    using assms(1) by (simp_all add: wf_def)
  show ?thesis
    unfolding wf_def using d1 d2 f3 c4 d5 by blast
qed

lemma wf_extend:
  assumes "wf s" and "map_of (cursor_cache s) t = Some cid"
  shows "wf (extend cid res s)"
proof -
  let ?s' = "extend cid res s"
  obtain c where c: "cursors s cid = Some c" "new_response c < next_future s"
    "new_response c \<notin> set (pending_futures s)"
    using wf_cached [OF assms(1) cached_lookup [OF assms(2)]] by auto
  have pf: "pending_futures ?s' = pending_futures s" by (simp add: pending_futures_def)
  have nx: "next_future ?s' = Suc (next_future s)"
    using c(1) by (simp add: extend_def signal_next_future)
  have f3: "futures ?s' g = [] \<and> g < next_future ?s'" if "g \<in> set (pending_futures s)" for g
  proof -
    have g: "futures s g = []" "g < next_future s" using wf_pending [OF assms(1) that] by simp_all
    have "futures ?s' g = futures s g"
      using g(2) that c by (intro extend_futures_other) auto
    with g nx show ?thesis by simp
  qed
  have c4: "cid' < next_cursor ?s' \<and>
        (case cursors ?s' cid' of None \<Rightarrow> False
         | Some c' \<Rightarrow> new_response c' < next_future ?s' \<and> new_response c' \<notin> set (pending_futures ?s'))"
    if "cid' \<in> snd ` set (cursor_cache s)" for cid'
  proof (cases "cid' = cid")
    case True
    have "next_future s \<notin> set (pending_futures s)"
      using wf_pending [OF assms(1), of "next_future s"] by auto
    then show ?thesis
      using True c(1) wf_cached [OF assms(1) that] nx pf
      by (auto simp add: extend_def signal_cursors)
  next
    case False
    then have "cursors ?s' cid' = cursors s cid'" by (rule extend_cursors_other)
    with wf_cached [OF assms(1) that] nx pf show ?thesis by auto
  qed
  show ?thesis
    unfolding wf_def using assms(1) f3 c4 pf by (simp add: wf_def)
qed


lemma pending_delete:
  assumes "wf s" and "map_of (user_queries s) k = Some (q, f)"
  shows "distinct (map fst (AList.delete k (user_queries s)))"
    and "distinct (map (\<lambda>entry. snd (snd entry)) (AList.delete k (user_queries s)))"
    and "set (map (\<lambda>entry. snd (snd entry)) (AList.delete k (user_queries s))) \<subseteq>
           set (pending_futures s) - {f}"
proof -
  show "distinct (map fst (AList.delete k (user_queries s)))"
    using assms(1) by (simp add: wf_def delete_filter distinct_map_filter)
  show "distinct (map (\<lambda>entry. snd (snd entry)) (AList.delete k (user_queries s)))"
    using assms(1) by (simp add: wf_def pending_futures_def delete_filter distinct_map_filter)
  show "set (map (\<lambda>entry. snd (snd entry)) (AList.delete k (user_queries s))) \<subseteq>
           set (pending_futures s) - {f}"
  proof
    fix g assume "g \<in> set (map (\<lambda>entry. snd (snd entry)) (AList.delete k (user_queries s)))"
    then obtain k' q' where m: "(k', (q', g)) \<in> set (user_queries s)" "k' \<noteq> k"
      by (auto simp add: delete_filter)
    have "distinct (map fst (user_queries s))" using assms(1) by (simp add: wf_def)
    with m(1) have l: "map_of (user_queries s) k' = Some (q', g)" by simp
    from wf_futures_inj [OF assms(1) l assms(2) m(2)] pending_lookup [OF l]
    show "g \<in> set (pending_futures s) - {f}" by simp
  qed
qed

lemma wf_sequence:
  assumes "wf s"
    and "map_of (cursor_cache s) (rtoken res) = None"
    and "map_of (user_queries s) (Some (rtoken res)) = Some (q, f)"
    and "rtype res \<in> {SUCCESS_SEQUENCE, SUCCESS_PARTIAL}"
  shows "wf (snd (reader_body convert_pseudo make_error res s))"
proof -
  let ?s' = "snd (reader_body convert_pseudo make_error res s)"
  note b = reader_body_sequence [OF assms(2-4), of convert_pseudo make_error]
  note pd = pending_delete [OF assms(1,3)]
  have pf: "pending_futures ?s' =
      map (\<lambda>entry. snd (snd entry)) (AList.delete (Some (rtoken res)) (user_queries s))"
    by (simp add: pending_futures_def b(3))
  have cc: "cursor_cache ?s' = cursor_cache s @ [(rtoken res, next_cursor s)]"
    using assms(2) by (simp add: b(2) update_fresh)
  have fresh: "rtoken res \<notin> fst ` set (cursor_cache s)"
    using assms(2) by (simp add: map_of_eq_None_iff)
  have newc: "next_cursor s \<notin> snd ` set (cursor_cache s)"
    using wf_cached [OF assms(1), of "next_cursor s"] by auto
  have low: "g < next_future s" if "g \<in> set (pending_futures s)" for g
    using wf_pending [OF assms(1) that] by simp
  have d1: "distinct (map fst (user_queries ?s'))" by (simp add: b(3) pd(1))
  have d2: "distinct (pending_futures ?s')" by (simp add: pf pd(2))
  have f3: "futures ?s' g = [] \<and> g < next_future ?s'" if "g \<in> set (pending_futures ?s')" for g
  proof -
    have g: "g \<in> set (pending_futures s)" "g \<noteq> f" using that pd(3) unfolding pf by auto
    with wf_pending [OF assms(1) g(1)] show ?thesis by (simp add: b(5,6))
  qed
  have d5: "distinct (map fst (cursor_cache ?s'))" "distinct (map snd (cursor_cache ?s'))"
    using assms(1) fresh newc by (simp_all add: cc wf_def)
  have c4: "cid < next_cursor ?s' \<and>
        (case cursors ?s' cid of None \<Rightarrow> False
         | Some c \<Rightarrow> new_response c < next_future ?s' \<and> new_response c \<notin> set (pending_futures ?s'))"
    if "cid \<in> set (map snd (cursor_cache ?s'))" for cid
  proof (cases "cid = next_cursor s")
    case True
    have "Suc (next_future s) \<notin> set (pending_futures ?s')"
      using pd(3) low [of "Suc (next_future s)"] unfolding pf by auto
    with True show ?thesis by (simp add: b(4,6,7))
  next
    case False
    with that have old: "cid \<in> snd ` set (cursor_cache s)" by (auto simp add: cc)
    obtain c where c: "cid < next_cursor s" "cursors s cid = Some c"
      "new_response c < next_future s" "new_response c \<notin> set (pending_futures s)"
      using wf_cached [OF assms(1) old] by auto
    have "new_response c \<notin> set (pending_futures ?s')"
      using c(4) pd(3) unfolding pf by auto
    with False c show ?thesis by (simp add: b(4,6,7))
  qed
  show ?thesis
    unfolding wf_def using d1 d2 f3 c4 d5 by blast
qed

lemma wf_reader_body:
  assumes "wf s"
  shows "wf (snd (reader_body convert_pseudo make_error res s))"
proof (cases "map_of (cursor_cache s) (rtoken res)")
  case (Some cid)
  then show ?thesis
    using wf_extend [OF assms Some, of res] by (simp add: reader_body_def)
next
  case None
  show ?thesis
  proof (cases "map_of (user_queries s) (Some (rtoken res))")
    case no: None
    from reader_body_unexpected [OF None no, of convert_pseudo make_error] assms
    show ?thesis by simp
  next
    case (Some p)
    obtain q f where p: "map_of (user_queries s) (Some (rtoken res)) = Some (q, f)"
      using Some by (cases p) simp
    show ?thesis
    proof (cases "rtype res")
      case SUCCESS_ATOM
      show ?thesis
      proof (cases "data res")
        case Nil
        from reader_body_empty_atom [OF None p SUCCESS_ATOM Nil, of convert_pseudo make_error] assms
        show ?thesis by simp
      next
        case (Cons d ds)
        from reader_body_atom [OF None p SUCCESS_ATOM Cons, of convert_pseudo make_error]
          wf_resolve_pending [OF assms p]
        show ?thesis by (simp add: set_result_def)
      qed
    next
      case SUCCESS_SEQUENCE
      then show ?thesis using wf_sequence [OF assms None p] by simp
    next
      case SUCCESS_PARTIAL
      then show ?thesis using wf_sequence [OF assms None p] by simp
    next
      case WAIT_COMPLETE
      from reader_body_wait_complete [OF None p WAIT_COMPLETE, of convert_pseudo make_error]
        wf_resolve_pending [OF assms p]
      show ?thesis by (simp add: set_result_def)
    next
      case (OTHER_RESPONSE n)
      from reader_body_error [OF None p OTHER_RESPONSE, of convert_pseudo make_error]
        wf_resolve_pending [OF assms p]
      show ?thesis by (simp add: set_exception_def)
    qed
  qed
qed

lemma wf_reader_step:
  assumes "wf s"
  shows "wf (snd (reader_step convert_pseudo make_error str_exn ev s))"
proof (cases ev)
  case (ReadFailure e)
  with assms show ?thesis by (simp add: reader_step_def wf_reader_except)
next
  case (Frame res)
  obtain r s' where b: "reader_body convert_pseudo make_error res s = (r, s')"
    by (cases "reader_body convert_pseudo make_error res s")
  have "wf s'" using wf_reader_body [OF assms, of convert_pseudo make_error res] b by simp
  with Frame b show ?thesis
    by (cases r) (simp_all add: reader_step_def wf_reader_except)
qed

lemma wf_reader:
  "wf s \<Longrightarrow> wf (reader convert_pseudo make_error str_exn evs s)"
proof (induction evs arbitrary: s)
  case Nil
  then show ?case by simp
next
  case (Cons ev evs)
  obtain go s' where st: "reader_step convert_pseudo make_error str_exn ev s = (go, s')"
    by (cases "reader_step convert_pseudo make_error str_exn ev s")
  have "wf s'"
    using wf_reader_step [OF Cons.prems, of convert_pseudo make_error str_exn ev] st by simp
  with st Cons.IH [of s'] show ?case by (cases go) simp_all
qed

lemma wf_run_query:
  assumes "wf s" and "run_query query noreply s = Inr (r, s')"
  shows "wf s'"
proof (cases noreply)
  case True
  with assms have "s' = s\<lparr>written := written s @ [query]\<rparr>"
    by (auto simp add: run_query_def Let_def split: if_splits)
  with assms(1) show ?thesis
    by (auto simp add: wf_def pending_futures_def split: option.splits)
next
  case False
  let ?nf = "next_future s"
  let ?uq = "AList.update (qtoken query) (query, ?nf) (user_queries s)"
  have s': "s' = s\<lparr>written := written s @ [query], futures := (futures s)(?nf := []),
                     next_future := Suc ?nf, user_queries := ?uq\<rparr>"
    using assms(2) False by (auto simp add: run_query_def Future_def Let_def split: if_splits)
  have fresh: "?nf \<notin> set (pending_futures s)"
    using wf_pending [OF assms(1), of ?nf] by auto
  have d1: "distinct (map fst ?uq)"
    using assms(1) by (simp add: wf_def distinct_update)
  have sub: "set ?uq \<subseteq> insert (qtoken query, (query, ?nf)) (set (user_queries s))"
    by (rule set_update_subset)
  have d2: "distinct (map (\<lambda>entry. snd (snd entry)) ?uq)"
  proof -
    have "distinct (map (\<lambda>entry. snd (snd entry)) (AList.update k (q, n) al))"
      if "distinct (map (\<lambda>entry. snd (snd entry)) al)" "n \<notin> (\<lambda>entry. snd (snd entry)) ` set al"
      for k :: "token option" and q :: "'a query" and n :: nat and al
      using that by (induction al) (auto simp add: image_iff dest: subsetD [OF set_update_subset])
    then show ?thesis
      using assms(1) fresh by (simp add: wf_def pending_futures_def)
  qed
  have pf: "set (pending_futures s') \<subseteq> insert ?nf (set (pending_futures s))"
    using sub by (auto simp add: s' pending_futures_def)
  have f3: "futures s' g = [] \<and> g < next_future s'" if "g \<in> set (pending_futures s')" for g
  proof (cases "g = ?nf")
    case True
    then show ?thesis by (simp add: s')
  next
    case False
    with that pf have "g \<in> set (pending_futures s)" by auto
    from wf_pending [OF assms(1) this] False show ?thesis by (simp add: s')
  qed
  have c4: "cid < next_cursor s' \<and>
        (case cursors s' cid of None \<Rightarrow> False
         | Some c \<Rightarrow> new_response c < next_future s' \<and> new_response c \<notin> set (pending_futures s'))"
    if "cid \<in> set (map snd (cursor_cache s'))" for cid
  proof -
    have "cid \<in> snd ` set (cursor_cache s)" using that by (simp add: s')
    from wf_cached [OF assms(1) this] pf show ?thesis by (auto simp add: s')
  qed
  have d5: "distinct (map fst (cursor_cache s'))" "distinct (map snd (cursor_cache s'))"
    using assms(1) by (simp_all add: wf_def s')
  have d1': "distinct (map fst (user_queries s'))" using d1 by (simp add: s')
  have d2': "distinct (pending_futures s')" using d2 by (simp add: s' pending_futures_def)
  show ?thesis
    unfolding wf_def using d1' d2' f3 c4 d5 by blast
qed

end
